theory Spec2Isabelle
  imports Complex_Main "HOL-Library.List_Lexorder"
begin

section \<open>Python values\<close>

text \<open>
  The view \<open>analyze_feedback\<close> of \<open>core/views.py\<close> handles values whose shape is
  decided at run time: the parsed request body, the objects returned by the Hugging Face
  client, the JSON returned by the zero-shot endpoint. They are modelled by one type of
  Python values.

  \<^item> \<open>PInt\<close> and \<open>PFloat\<close> are Python's \<open>int\<close> and \<open>float\<close>. A float is
    modelled by the rational it denotes, which orders finite floats and integers as Python
    does; \<open>nan\<close> and the infinities are outside the model.
  \<^item> \<open>PStr\<close> is \<open>str\<close>, the list of the Unicode code points of the string.
  \<^item> \<open>PDict\<close> is a \<open>dict\<close> with string keys, as an association list with distinct keys.
  \<^item> \<open>PObj c as\<close> is an instance of class \<open>c\<close> with the attributes \<open>as\<close>, such as the
    \<open>SummarizationOutput\<close> and \<open>TextClassificationOutputElement\<close> objects of the client.
  \<^item> \<open>ServerTimestamp\<close> is the sentinel \<open>firestore.SERVER_TIMESTAMP\<close>.
\<close>

text \<open>
  A Python string is a sequence of code points. The literals of the program are ASCII;
  \<open>ustr\<close> turns such a literal into the string of its code points. The keys of dicts,
  the names of attributes and of types, model names and URLs stay literals.
\<close>

type_synonym pystr = "nat list"

definition ustr :: "string \<Rightarrow> pystr" where
  "ustr s = map of_char s"

datatype pyval =
    PNone
  | PBool bool
  | PInt int
  | PFloat rat
  | PStr pystr
  | PList "pyval list"
  | PDict "(string \<times> pyval) list"
  | PObj string "(string \<times> pyval) list"
  | ServerTimestamp

text \<open>
  Exceptions, as far as the \<open>except\<close> clauses of the view tell them apart:
  \<open>json.JSONDecodeError\<close>; \<open>requests.exceptions.HTTPError\<close>, with
  \<open>e.response.status_code\<close> and \<open>e.response.text\<close>; and the other subclasses of
  \<open>Exception\<close>, each with its message \<open>str(e)\<close>.
\<close>

datatype exc =
    JSONDecodeError
  | HTTPError int pystr
  | AttributeError pystr
  | TypeError pystr
  | OtherError pystr

fun type_name :: "pyval \<Rightarrow> string" where
  "type_name PNone = ''NoneType''"
| "type_name (PBool b) = ''bool''"
| "type_name (PInt i) = ''int''"
| "type_name (PFloat r) = ''float''"
| "type_name (PStr s) = ''str''"
| "type_name (PList xs) = ''list''"
| "type_name (PDict d) = ''dict''"
| "type_name (PObj c as) = c"
| "type_name ServerTimestamp = ''Sentinel''"

definition no_attribute_message :: "pyval \<Rightarrow> string \<Rightarrow> pystr" where
  "no_attribute_message v a =
     ustr ([CHR 0x27] @ type_name v @ [CHR 0x27] @ '' object has no attribute ''
           @ [CHR 0x27] @ a @ [CHR 0x27])"

definition no_attribute :: "pyval \<Rightarrow> string \<Rightarrow> exc" where
  "no_attribute v a = AttributeError (no_attribute_message v a)"

text \<open>Truth value of a Python value, as \<open>if v:\<close> and \<open>and\<close> test it.\<close>

fun truthy :: "pyval \<Rightarrow> bool" where
  "truthy PNone = False"
| "truthy (PBool b) = b"
| "truthy (PInt i) = (i \<noteq> 0)"
| "truthy (PFloat r) = (r \<noteq> 0)"
| "truthy (PStr s) = (s \<noteq> [])"
| "truthy (PList xs) = (xs \<noteq> [])"
| "truthy (PDict d) = (d \<noteq> [])"
| "truthy (PObj c as) = True"
| "truthy ServerTimestamp = True"

fun is_list :: "pyval \<Rightarrow> bool" where
  "is_list (PList xs) = True"
| "is_list v = False"

fun is_dict :: "pyval \<Rightarrow> bool" where
  "is_dict (PDict d) = True"
| "is_dict v = False"

fun is_str :: "pyval \<Rightarrow> bool" where
  "is_str (PStr s) = True"
| "is_str v = False"

text \<open>\<open>hasattr(v, a)\<close> and \<open>v.a\<close> for a data attribute \<open>a\<close>: only objects have them.\<close>

fun hasattr :: "pyval \<Rightarrow> string \<Rightarrow> bool" where
  "hasattr (PObj c as) a = (map_of as a \<noteq> None)"
| "hasattr v a = False"

fun getattr :: "pyval \<Rightarrow> string \<Rightarrow> exc + pyval" where
  "getattr (PObj c as) a =
     (case map_of as a of None \<Rightarrow> Inl (no_attribute (PObj c as) a) | Some v \<Rightarrow> Inr v)"
| "getattr v a = Inl (no_attribute v a)"

text \<open>\<open>v.get(k, d)\<close>: a method of dicts only.\<close>

fun py_get :: "pyval \<Rightarrow> string \<Rightarrow> pyval \<Rightarrow> exc + pyval" where
  "py_get (PDict d) k dflt = Inr (case map_of d k of None \<Rightarrow> dflt | Some v \<Rightarrow> v)"
| "py_get v k dflt = Inl (no_attribute v ''get'')"

subsection \<open>Ordering of values\<close>

text \<open>
  \<open>a < b\<close> as \<open>list.sort\<close> and \<open>max\<close> evaluate it on keys. Numbers (\<open>bool\<close> counts as
  0 and 1) are ordered by value and strings by code point. For every other pair of the
  values above Python raises \<open>TypeError\<close>, except for two lists, which it orders
  lexicographically; list-valued keys are outside the model and reported as \<open>TypeError\<close>
  too. The message names the operand types in the order of the comparison made here.
\<close>

fun num_of :: "pyval \<Rightarrow> rat option" where
  "num_of (PBool b) = Some (if b then 1 else 0)"
| "num_of (PInt i) = Some (of_int i)"
| "num_of (PFloat r) = Some r"
| "num_of v = None"

definition not_supported :: "string \<Rightarrow> pyval \<Rightarrow> pyval \<Rightarrow> exc" where
  "not_supported opr a b =
     TypeError (ustr ([CHR 0x27] @ opr @ [CHR 0x27] @ '' not supported between instances of ''
                      @ [CHR 0x27] @ type_name a @ [CHR 0x27] @ '' and ''
                      @ [CHR 0x27] @ type_name b @ [CHR 0x27]))"

definition py_lt :: "pyval \<Rightarrow> pyval \<Rightarrow> exc + bool" where
  "py_lt a b =
     (case (num_of a, num_of b) of
        (Some x, Some y) \<Rightarrow> Inr (x < y)
      | _ \<Rightarrow> (case (a, b) of
                (PStr s, PStr t) \<Rightarrow> Inr (s < t)
              | _ \<Rightarrow> Inl (not_supported ''<'' a b)))"

definition py_gt :: "pyval \<Rightarrow> pyval \<Rightarrow> exc + bool" where
  "py_gt a b =
     (case (num_of a, num_of b) of
        (Some x, Some y) \<Rightarrow> Inr (x > y)
      | _ \<Rightarrow> (case (a, b) of
                (PStr s, PStr t) \<Rightarrow> Inr (s > t)
              | _ \<Rightarrow> Inl (not_supported ''>'' a b)))"

section \<open>Strings\<close>

text \<open>
  \<open>str.strip()\<close> removes leading and trailing whitespace. The code points for which
  \<open>str.isspace\<close> holds are, in Python 3: U+0009 to U+000D (tab, line feed, vertical tab,
  form feed, carriage return), U+001C to U+001F (the four separators), U+0020 (space),
  U+0085 (next line), U+00A0 (no-break space), U+1680, U+2000 to U+200A, U+2028, U+2029,
  U+202F, U+205F and U+3000.
\<close>

definition whitespace_code_points :: "nat list" where
  "whitespace_code_points =
     [0x09, 0x0A, 0x0B, 0x0C, 0x0D, 0x1C, 0x1D, 0x1E, 0x1F, 0x20, 0x85, 0xA0, 0x1680,
      0x2000, 0x2001, 0x2002, 0x2003, 0x2004, 0x2005, 0x2006, 0x2007, 0x2008, 0x2009, 0x200A,
      0x2028, 0x2029, 0x202F, 0x205F, 0x3000]"

definition py_isspace :: "nat \<Rightarrow> bool" where
  "py_isspace c \<longleftrightarrow> c \<in> set whitespace_code_points"

definition strip :: "pystr \<Rightarrow> pystr" where
  "strip s = rev (dropWhile py_isspace (rev (dropWhile py_isspace s)))"

text \<open>
  \<open>str.title()\<close>: a cased character is made upper case when the character before it is
  not cased (or there is none), and lower case otherwise. Case is modelled for the letters
  of ASCII, so the function is Python's on ASCII strings, which the labels of the
  sentiment model (\<open>POSITIVE\<close>, \<open>NEGATIVE\<close>) are; Python also cases the letters beyond
  ASCII, which are left as they are here.
\<close>

definition is_lower :: "nat \<Rightarrow> bool" where
  "is_lower c \<longleftrightarrow> 0x61 \<le> c \<and> c \<le> 0x7A"

definition is_upper :: "nat \<Rightarrow> bool" where
  "is_upper c \<longleftrightarrow> 0x41 \<le> c \<and> c \<le> 0x5A"

definition to_upper :: "nat \<Rightarrow> nat" where
  "to_upper c = (if is_lower c then c - 0x20 else c)"

definition to_lower :: "nat \<Rightarrow> nat" where
  "to_lower c = (if is_upper c then c + 0x20 else c)"

definition is_cased :: "nat \<Rightarrow> bool" where
  "is_cased c \<longleftrightarrow> is_lower c \<or> is_upper c"

fun title_from :: "bool \<Rightarrow> pystr \<Rightarrow> pystr" where
  "title_from prev [] = []"
| "title_from prev (c # cs) =
     (if is_cased c then (if prev then to_lower c else to_upper c) # title_from True cs
      else c # title_from False cs)"

definition title :: "pystr \<Rightarrow> pystr" where
  "title s = title_from False s"

text \<open>\<open>str(n)\<close> for an integer, as the f-string of the error message formats it.\<close>

fun str_nat :: "nat \<Rightarrow> string" where
  "str_nat n =
     (if n < 10 then [''0123456789'' ! n]
      else str_nat (n div 10) @ [''0123456789'' ! (n mod 10)])"

definition str_int :: "int \<Rightarrow> string" where
  "str_int i = (if i < 0 then CHR ''-'' # str_nat (nat (- i)) else str_nat (nat i))"

section \<open>The priority table\<close>

definition CLASSIFIER_LABELS :: "pystr list" where
  "CLASSIFIER_LABELS =
     map ustr
       [''Urgent'', ''Billing'', ''Technical Support'', ''Bug Report'', ''Feature Request'',
        ''Praise'', ''General Feedback'']"

definition PRIORITY_ORDER :: "pystr list" where
  "PRIORITY_ORDER =
     map ustr
       [''Urgent'', ''Billing'', ''Technical Support'', ''Bug Report'', ''Feature Request'',
        ''Praise'', ''General Feedback'']"

text \<open>
  \<open>PRIORITY_MAP = {label: index for index, label in enumerate(PRIORITY_ORDER)}\<close>: the
  comprehension stores the pairs in order, a later one replacing an earlier one with the
  same key.
\<close>

definition PRIORITY_MAP :: "pystr \<rightharpoonup> int" where
  "PRIORITY_MAP =
     fold (\<lambda>(index, label) m. m(label \<mapsto> int index)) (enumerate 0 PRIORITY_ORDER) Map.empty"

text \<open>
  \<open>PRIORITY_MAP.get(tag, dflt)\<close>. The key is hashed first: a list or a dict is not
  hashable. A hashable key that is not a string equals none of the keys of the table.
\<close>

definition unhashable :: "pyval \<Rightarrow> exc" where
  "unhashable v =
     TypeError (ustr (''unhashable type: '' @ [CHR 0x27] @ type_name v @ [CHR 0x27]))"

fun priority_get :: "pyval \<Rightarrow> int \<Rightarrow> exc + int" where
  "priority_get (PStr s) dflt = Inr (case PRIORITY_MAP s of None \<Rightarrow> dflt | Some i \<Rightarrow> i)"
| "priority_get (PList xs) dflt = Inl (unhashable (PList xs))"
| "priority_get (PDict d) dflt = Inl (unhashable (PDict d))"
| "priority_get v dflt = Inr dflt"

section \<open>Sorting and maximum\<close>

text \<open>
  \<open>xs.sort(key=f, reverse=True)\<close>. Python computes the key of every element first, in
  order, and a key function that raises leaves the sort. It then sorts by descending key
  and keeps elements with equal keys in their original order. A comparison that raises
  ends the sort with that exception; a list of fewer than two elements is not compared at
  all. Here the sort is an insertion sort from the right: every element is compared with
  the front of the elements after it, already sorted.
\<close>

fun with_keys :: "(pyval \<Rightarrow> exc + pyval) \<Rightarrow> pyval list \<Rightarrow> exc + (pyval \<times> pyval) list" where
  "with_keys f [] = Inr []"
| "with_keys f (x # xs) =
     (case f x of
        Inl e \<Rightarrow> Inl e
      | Inr k \<Rightarrow> (case with_keys f xs of Inl e \<Rightarrow> Inl e | Inr ks \<Rightarrow> Inr ((k, x) # ks)))"

fun insert_desc :: "pyval \<times> pyval \<Rightarrow> (pyval \<times> pyval) list \<Rightarrow> exc + (pyval \<times> pyval) list" where
  "insert_desc p [] = Inr [p]"
| "insert_desc p (q # qs) =
     (case py_lt (fst p) (fst q) of
        Inl e \<Rightarrow> Inl e
      | Inr True \<Rightarrow> (case insert_desc p qs of Inl e \<Rightarrow> Inl e | Inr rs \<Rightarrow> Inr (q # rs))
      | Inr False \<Rightarrow> Inr (p # q # qs))"

fun sort_desc :: "(pyval \<times> pyval) list \<Rightarrow> exc + (pyval \<times> pyval) list" where
  "sort_desc [] = Inr []"
| "sort_desc (p # ps) = (case sort_desc ps of Inl e \<Rightarrow> Inl e | Inr qs \<Rightarrow> insert_desc p qs)"

definition sort_reverse :: "(pyval \<Rightarrow> exc + pyval) \<Rightarrow> pyval list \<Rightarrow> exc + pyval list" where
  "sort_reverse f xs =
     (case with_keys f xs of
        Inl e \<Rightarrow> Inl e
      | Inr ks \<Rightarrow> (case sort_desc ks of Inl e \<Rightarrow> Inl e | Inr qs \<Rightarrow> Inr (map snd qs)))"

text \<open>
  \<open>max(xs, key=f)\<close> on a non-empty list: the first element is the candidate; each later
  element replaces it when its key is greater (\<open>>\<close>), so the first of several maximal
  elements is returned.
\<close>

fun max_from :: "(pyval \<Rightarrow> exc + pyval) \<Rightarrow> pyval \<times> pyval \<Rightarrow> pyval list \<Rightarrow> exc + pyval" where
  "max_from f m [] = Inr (snd m)"
| "max_from f m (x # xs) =
     (case f x of
        Inl e \<Rightarrow> Inl e
      | Inr k \<Rightarrow> (case py_gt k (fst m) of
                   Inl e \<Rightarrow> Inl e
                 | Inr g \<Rightarrow> max_from f (if g then (k, x) else m) xs))"

fun py_max :: "(pyval \<Rightarrow> exc + pyval) \<Rightarrow> pyval list \<Rightarrow> exc + pyval" where
  "py_max f [] = Inl (OtherError (ustr ''max() arg is an empty sequence''))"
| "py_max f (x # xs) = (case f x of Inl e \<Rightarrow> Inl e | Inr k \<Rightarrow> max_from f (k, x) xs)"

section \<open>Processing the results\<close>

fun list_items :: "pyval \<Rightarrow> pyval list" where
  "list_items (PList xs) = xs"
| "list_items v = []"

text \<open>Lines 138 to 140: the summary, or the fallback.\<close>

definition process_summary :: "pyval \<Rightarrow> exc + pyval" where
  "process_summary summary =
     (if truthy summary \<and> hasattr summary ''summary_text''
      then getattr summary ''summary_text''
      else Inr (PStr (ustr ''Analysis failed.'')))"

text \<open>\<open>v.title()\<close>: a method of strings.\<close>

fun py_title :: "pyval \<Rightarrow> exc + pyval" where
  "py_title (PStr s) = Inr (PStr (title s))"
| "py_title v = Inl (no_attribute v ''title'')"

text \<open>Lines 143 to 146: the sentiment.\<close>

definition process_sentiment :: "pyval \<Rightarrow> exc + pyval" where
  "process_sentiment sentiment =
     (if truthy sentiment \<and> is_list sentiment \<and> length (list_items sentiment) > 0
      then (case py_max (\<lambda>x. getattr x ''score'') (list_items sentiment) of
              Inl e \<Rightarrow> Inl e
            | Inr top_elem \<Rightarrow> (case getattr top_elem ''label'' of
                           Inl e \<Rightarrow> Inl e
                         | Inr label \<Rightarrow> py_title label))
      else Inr (PStr (ustr ''Neutral'')))"

text \<open>
  Lines 149 to 163: the tag and its rank. The specification calls this part
  \<open>select_tag\<close>; in the source it is a block of \<open>analyze_feedback\<close>.
\<close>

definition select_tag :: "pyval \<Rightarrow> exc + pyval \<times> int" where
  "select_tag tags =
     (if truthy tags \<and> is_list tags \<and> length (list_items tags) > 0
         \<and> is_dict (list_items tags ! 0)
      then (case sort_reverse (\<lambda>x. py_get x ''score'' (PInt 0)) (list_items tags) of
              Inl e \<Rightarrow> Inl e
            | Inr sorted_tags \<Rightarrow>
                (case py_get (sorted_tags ! 0) ''label'' PNone of
                   Inl e \<Rightarrow> Inl e
                 | Inr top_tag \<Rightarrow>
                     if truthy top_tag
                     then (case priority_get top_tag 100 of
                             Inl e \<Rightarrow> Inl e
                           | Inr processed_rank \<Rightarrow> Inr (top_tag, processed_rank))
                     else Inr (PStr (ustr ''General Feedback''), 100)))
      else Inr (PStr (ustr ''General Feedback''), 100))"

text \<open>Lines 166 to 174: the record.\<close>

definition response_data :: "pyval \<Rightarrow> pyval \<Rightarrow> pyval \<Rightarrow> int \<Rightarrow> (string \<times> pyval) list" where
  "response_data processed_summary processed_sentiment processed_tag processed_rank =
     [(''summary'', processed_summary),
      (''sentiment'', processed_sentiment),
      (''tags'', PList [processed_tag]),
      (''priority_rank'', PInt processed_rank),
      (''timestamp'', ServerTimestamp)]"

definition process_results :: "pyval \<Rightarrow> pyval \<Rightarrow> pyval \<Rightarrow> exc + (string \<times> pyval) list" where
  "process_results summary sentiment tags =
     (case process_summary summary of
        Inl e \<Rightarrow> Inl e
      | Inr processed_summary \<Rightarrow>
          (case process_sentiment sentiment of
             Inl e \<Rightarrow> Inl e
           | Inr processed_sentiment \<Rightarrow>
               (case select_tag tags of
                  Inl e \<Rightarrow> Inl e
                | Inr (processed_tag, processed_rank) \<Rightarrow>
                    Inr (response_data processed_summary processed_sentiment
                           processed_tag processed_rank))))"

section \<open>The outside world\<close>

text \<open>
  What the view reaches outside itself is a parameter of the model: the JSON parser, the
  two calls of the Hugging Face client, the HTTP call to the zero-shot endpoint, and the
  Firestore client \<open>db\<close>, which is \<open>None\<close> when its initialisation failed at import time.
  Each call returns a value or raises. The API token of \<open>settings\<close> and the
  construction of the \<open>InferenceClient\<close>, which calls nothing, are not modelled. An
  \<open>HTTPError\<close> always carries its response, as the ones raised by \<open>requests\<close> and
  by the client do.
\<close>

record http_response =
  status_code :: int
  response_text :: pystr
  response_json :: "exc + pyval"

type_synonym document = "(string \<times> pyval) list"

record env =
  json_loads :: "string \<Rightarrow> exc + pyval"
  summarization :: "pyval \<Rightarrow> string \<Rightarrow> exc + pyval"
  text_classification :: "pyval \<Rightarrow> string \<Rightarrow> exc + pyval"
  requests_post :: "string \<Rightarrow> pyval \<Rightarrow> exc + http_response"
  db :: "(document \<Rightarrow> exc option) option"

text \<open>
  The effects of a request: the calls made to the outside, in order, and the documents
  of the collection \<open>user_tickets/demo_user/tickets\<close>.
\<close>

datatype call =
    Summarization pyval string
  | TextClassification pyval string
  | Post string pyval
  | FirestoreAdd "string list" document

record world =
  calls :: "call list"
  tickets :: "document list"

record request =
  http_method :: string
  body :: string

text \<open>
  \<open>JsonResponse(data, status=s)\<close>, with Django's default status 200. The encoding of
  the data as JSON text is not modelled: the values the view puts into a response are
  strings, numbers and lists taken from JSON or from the client's string fields.
\<close>

datatype response = JsonResponse document int

fun data :: "response \<Rightarrow> document" where
  "data (JsonResponse d s) = d"

fun status :: "response \<Rightarrow> int" where
  "status (JsonResponse d s) = s"

definition MODEL_SUMMARIZATION :: string where
  "MODEL_SUMMARIZATION = ''sshleifer/distilbart-cnn-12-6''"

definition MODEL_SENTIMENT :: string where
  "MODEL_SENTIMENT = ''distilbert/distilbert-base-uncased-finetuned-sst-2-english''"

definition API_URL :: string where
  "API_URL = ''https://router.huggingface.co/hf-inference/models/facebook/bart-large-mnli''"

section \<open>The view\<close>

text \<open>
  \<open>response.raise_for_status()\<close> raises \<open>HTTPError\<close> for a status from 400 to 599 and
  returns for every other status.
\<close>

definition raise_for_status :: "http_response \<Rightarrow> exc option" where
  "raise_for_status r =
     (if 400 \<le> status_code r \<and> status_code r < 600
      then Some (HTTPError (status_code r) (response_text r))
      else None)"

text \<open>Lines 123 to 126: the local function \<open>query\<close>.\<close>

definition query :: "env \<Rightarrow> pyval \<Rightarrow> exc + pyval" where
  "query E payload =
     (case requests_post E API_URL payload of
        Inl e \<Rightarrow> Inl e
      | Inr r \<Rightarrow> (case raise_for_status r of Some e \<Rightarrow> Inl e | None \<Rightarrow> response_json r))"

definition tags_payload :: "pyval \<Rightarrow> pyval" where
  "tags_payload text_input =
     PDict [(''inputs'', text_input),
            (''parameters'', PDict [(''candidate_labels'', PList (map PStr CLASSIFIER_LABELS))])]"

definition made :: "call \<Rightarrow> world \<Rightarrow> world" where
  "made c w = w\<lparr>calls := calls w @ [c]\<rparr>"

text \<open>Lines 97 to 133: the three calls, one after the other.\<close>

definition api_calls :: "env \<Rightarrow> pyval \<Rightarrow> world \<Rightarrow> (exc + pyval \<times> pyval \<times> pyval) \<times> world" where
  "api_calls E text_input w =
     (let w1 = made (Summarization text_input MODEL_SUMMARIZATION) w in
      case summarization E text_input MODEL_SUMMARIZATION of
        Inl e \<Rightarrow> (Inl e, w1)
      | Inr summary \<Rightarrow>
          (let w2 = made (TextClassification text_input MODEL_SENTIMENT) w1 in
           case text_classification E text_input MODEL_SENTIMENT of
             Inl e \<Rightarrow> (Inl e, w2)
           | Inr sentiment \<Rightarrow>
               (let w3 = made (Post API_URL (tags_payload text_input)) w2 in
                case query E (tags_payload text_input) of
                  Inl e \<Rightarrow> (Inl e, w3)
                | Inr tags \<Rightarrow> (Inr (summary, sentiment, tags), w3))))"

text \<open>
  Lines 181 to 191: the write to Firestore. An exception of the write is printed and
  dropped; without a client nothing is written.
\<close>

definition save_to_firestore :: "env \<Rightarrow> document \<Rightarrow> world \<Rightarrow> world" where
  "save_to_firestore E doc w =
     (case db E of
        None \<Rightarrow> w
      | Some add \<Rightarrow>
          (let w1 = made (FirestoreAdd [''user_tickets'', ''demo_user'', ''tickets''] doc) w in
           case add doc of
             Some e \<Rightarrow> w1
           | None \<Rightarrow> w1\<lparr>tickets := tickets w1 @ [doc]\<rparr>))"

text \<open>\<open>v.strip()\<close>: a method of strings.\<close>

fun py_strip :: "pyval \<Rightarrow> exc + pyval" where
  "py_strip (PStr s) = Inr (PStr (strip s))"
| "py_strip v = Inl (no_attribute v ''strip'')"

text \<open>\<open>d.copy()\<close> followed by \<open>del d['timestamp']\<close>.\<close>

definition del_timestamp :: "document \<Rightarrow> document" where
  "del_timestamp d = filter (\<lambda>(k, v). k \<noteq> ''timestamp'') d"

text \<open>Lines 92 to 193: the body of the \<open>try\<close> statement.\<close>

definition analyze_try :: "env \<Rightarrow> request \<Rightarrow> world \<Rightarrow> (exc + response) \<times> world" where
  "analyze_try E request w =
     (case json_loads E (body request) of
        Inl e \<Rightarrow> (Inl e, w)
      | Inr body_data \<Rightarrow>
     (case py_get body_data ''text'' (PStr []) of
        Inl e \<Rightarrow> (Inl e, w)
      | Inr text_input \<Rightarrow>
     (case py_strip text_input of
        Inl e \<Rightarrow> (Inl e, w)
      | Inr stripped \<Rightarrow>
          if \<not> truthy stripped
          then (Inr (JsonResponse [(''error'', PStr (ustr ''Text input cannot be empty''))] 400), w)
          else
     (case api_calls E text_input w of
        (Inl e, w1) \<Rightarrow> (Inl e, w1)
      | (Inr (summary, sentiment, tags), w1) \<Rightarrow>
     (case process_results summary sentiment tags of
        Inl e \<Rightarrow> (Inl e, w1)
      | Inr doc \<Rightarrow>
          (Inr (JsonResponse (del_timestamp doc) 200), save_to_firestore E doc w1))))))"

definition unexpected :: "pystr \<Rightarrow> response" where
  "unexpected m =
     JsonResponse [(''error'', PStr (ustr ''An unexpected error occurred: '' @ m))] 500"

text \<open>Lines 83 to 201: the view, with its \<open>except\<close> clauses in order.\<close>

definition analyze_feedback :: "env \<Rightarrow> request \<Rightarrow> world \<Rightarrow> response \<times> world" where
  "analyze_feedback E request w =
     (if http_method request \<noteq> ''POST''
      then (JsonResponse [(''error'', PStr (ustr ''Only POST requests are allowed''))] 405, w)
      else (case analyze_try E request w of
              (Inr r, w1) \<Rightarrow> (r, w1)
            | (Inl JSONDecodeError, w1) \<Rightarrow>
                (JsonResponse [(''error'', PStr (ustr ''Invalid JSON in request body''))] 400, w1)
            | (Inl (HTTPError code txt), w1) \<Rightarrow>
                (JsonResponse
                   [(''error'', PStr (ustr ''Hugging Face API Error: '' @ ustr (str_int code)
                                      @ ustr '' - '' @ txt))]
                   code, w1)
            | (Inl (AttributeError m), w1) \<Rightarrow> (unexpected m, w1)
            | (Inl (TypeError m), w1) \<Rightarrow> (unexpected m, w1)
            | (Inl (OtherError m), w1) \<Rightarrow> (unexpected m, w1)))"

section \<open>Candidates, scores and ranks\<close>

text \<open>
  The notions the properties below are stated with. A classification candidate is a dict
  whose \<open>score\<close> is a number or is missing; a missing score counts as 0. An entry
  without a \<open>label\<close> has the label \<open>None\<close>.
\<close>

fun raw_score :: "pyval \<Rightarrow> pyval" where
  "raw_score (PDict d) = (case map_of d ''score'' of None \<Rightarrow> PInt 0 | Some v \<Rightarrow> v)"
| "raw_score v = PNone"

fun is_number :: "pyval \<Rightarrow> bool" where
  "is_number (PBool b) = True"
| "is_number (PInt i) = True"
| "is_number (PFloat r) = True"
| "is_number v = False"

definition is_candidate :: "pyval \<Rightarrow> bool" where
  "is_candidate t \<longleftrightarrow> is_dict t \<and> is_number (raw_score t)"

definition score_of :: "pyval \<Rightarrow> rat" where
  "score_of t = (case num_of (raw_score t) of None \<Rightarrow> 0 | Some r \<Rightarrow> r)"

fun label_of :: "pyval \<Rightarrow> pyval" where
  "label_of (PDict d) = (case map_of d ''label'' of None \<Rightarrow> PNone | Some v \<Rightarrow> v)"
| "label_of v = PNone"

text \<open>
  Position \<open>i\<close> holds a maximal score and every position before it a smaller one: the
  first of the entries with the highest score.
\<close>

definition first_maximal :: "rat list \<Rightarrow> nat \<Rightarrow> bool" where
  "first_maximal ss i \<longleftrightarrow>
     i < length ss \<and> (\<forall>s \<in> set ss. s \<le> ss ! i) \<and> (\<forall>s \<in> set (take i ss). s < ss ! i)"

text \<open>The rank of a label in the priority table, 100 for a label that is not in it.\<close>

definition table_rank :: "pystr \<Rightarrow> int" where
  "table_rank l = (case PRIORITY_MAP l of None \<Rightarrow> 100 | Some r \<Rightarrow> r)"


text \<open>The numeric value of a sort key.\<close>

definition nkey :: "pyval \<times> pyval \<Rightarrow> rat" where
  "nkey p = (case num_of (fst p) of None \<Rightarrow> 0 | Some r \<Rightarrow> r)"

text \<open>
  An element of a sentiment response is well formed when it has a numeric attribute
  \<open>score\<close>.
\<close>

definition raw_element_score :: "pyval \<Rightarrow> pyval" where
  "raw_element_score x = (case getattr x ''score'' of Inl e \<Rightarrow> PNone | Inr v \<Rightarrow> v)"

definition is_scored :: "pyval \<Rightarrow> bool" where
  "is_scored x \<longleftrightarrow> is_number (raw_element_score x)"

definition element_score :: "pyval \<Rightarrow> rat" where
  "element_score x = (case num_of (raw_element_score x) of None \<Rightarrow> 0 | Some r \<Rightarrow> r)"

section \<open>Example requests and environments\<close>

text \<open>
  A request with a feedback text, and an outside world in which every call succeeds: the
  parser reads the bodies used below, the summarizer and the sentiment classifier answer
  with their objects, the zero-shot endpoint answers 200 with two candidates, and the
  Firestore write succeeds.
\<close>

definition feedback_body :: string where
  \<open>feedback_body = ''{"text": "This is unacceptable, I demand a refund now!"}''\<close>

definition feedback_text :: pystr where
  "feedback_text = ustr ''This is unacceptable, I demand a refund now!''"

definition blank_body :: string where
  \<open>blank_body =
     ''{"text": " '' @ [CHR 0x5C] @ ''u00a0'' @ [CHR 0x5C] @ ''u3000'' @ [CHR 0x5C] @ ''t"}''\<close>

definition blank_text :: pystr where
  "blank_text = [0x20, 0xA0, 0x3000, 0x09]"

definition number_body :: string where
  \<open>number_body = ''{"text": 5}''\<close>

definition example_json_loads :: "string \<Rightarrow> exc + pyval" where
  "example_json_loads b =
     (if b = feedback_body then Inr (PDict [(''text'', PStr feedback_text)])
      else if b = blank_body then Inr (PDict [(''text'', PStr blank_text)])
      else if b = number_body then Inr (PDict [(''text'', PInt 5)])
      else if b = ''{}'' then Inr (PDict [])
      else if b = ''[]'' then Inr (PList [])
      else Inl JSONDecodeError)"

definition example_candidates :: pyval where
  "example_candidates =
     PList [PDict [(''label'', PStr (ustr ''Billing'')), (''score'', PFloat (81 / 100))],
            PDict [(''label'', PStr (ustr ''Urgent'')), (''score'', PFloat (65 / 100))]]"

definition example_summary :: pyval where
  "example_summary =
     PObj ''SummarizationOutput'' [(''summary_text'', PStr (ustr ''Customer demands a refund.''))]"

definition example_sentiment :: pyval where
  "example_sentiment =
     PList [PObj ''TextClassificationOutputElement''
              [(''label'', PStr (ustr ''NEGATIVE'')), (''score'', PFloat (98 / 100))],
            PObj ''TextClassificationOutputElement''
              [(''label'', PStr (ustr ''POSITIVE'')), (''score'', PFloat (2 / 100))]]"

definition example_env :: env where
  "example_env =
     \<lparr> json_loads = example_json_loads,
       summarization = (\<lambda>t m. Inr example_summary),
       text_classification = (\<lambda>t m. Inr example_sentiment),
       requests_post = (\<lambda>u p.
         Inr \<lparr> status_code = 200, response_text = [], response_json = Inr example_candidates \<rparr>),
       db = Some (\<lambda>d. None) \<rparr>"

definition example_request :: request where
  "example_request = \<lparr> http_method = ''POST'', body = feedback_body \<rparr>"

definition empty_world :: world where
  "empty_world = \<lparr> calls = [], tickets = [] \<rparr>"

text \<open>The zero-shot endpoint answers with status 300 and a JSON body.\<close>

definition env_status_300 :: env where
  "env_status_300 =
     example_env\<lparr> requests_post := (\<lambda>u p.
       Inr \<lparr> status_code = 300, response_text = [], response_json = Inr example_candidates \<rparr>) \<rparr>"

text \<open>The zero-shot endpoint answers with status 503.\<close>

definition env_status_503 :: env where
  "env_status_503 =
     example_env\<lparr> requests_post := (\<lambda>u p.
       Inr \<lparr> status_code = 503, response_text = ustr ''Service Unavailable'',
             response_json = Inl JSONDecodeError \<rparr>) \<rparr>"

text \<open>The zero-shot endpoint answers with status 200 and a body that is not JSON.\<close>

definition env_answer_not_json :: env where
  "env_answer_not_json =
     example_env\<lparr> requests_post := (\<lambda>u p.
       Inr \<lparr> status_code = 200, response_text = ustr ''<html>Bad Gateway</html>'',
             response_json = Inl JSONDecodeError \<rparr>) \<rparr>"

text \<open>The summarization call raises.\<close>

definition env_summarization_fails :: env where
  "env_summarization_fails =
     example_env\<lparr> summarization := (\<lambda>t m. Inl (OtherError (ustr ''Inference timed out''))) \<rparr>"

text \<open>The summarization call returns nothing usable.\<close>

definition env_summarization_none :: env where
  "env_summarization_none = example_env\<lparr> summarization := (\<lambda>t m. Inr PNone) \<rparr>"

text \<open>The sentiment response holds one element, without a label.\<close>

definition sentiment_without_label :: pyval where
  "sentiment_without_label =
     PList [PObj ''TextClassificationOutputElement''
              [(''label'', PNone), (''score'', PFloat (98 / 100))]]"

definition env_sentiment_without_label :: env where
  "env_sentiment_without_label =
     example_env\<lparr> text_classification := (\<lambda>t m. Inr sentiment_without_label) \<rparr>"

text \<open>The Firestore client is missing, or its write raises.\<close>

definition env_no_db :: env where
  "env_no_db = example_env\<lparr> db := None \<rparr>"

definition env_db_fails :: env where
  "env_db_fails = example_env\<lparr> db := Some (\<lambda>d. Some (OtherError (ustr ''Deadline exceeded''))) \<rparr>"


section \<open>String literals\<close>

lemma ustr_eq_iff [simp]: "ustr a = ustr b \<longleftrightarrow> a = b"
  by (simp add: ustr_def inj_map_eq_map inj_on_def)

lemma ustr_eq_Nil_iff [simp]: "ustr a = [] \<longleftrightarrow> a = []"
  by (simp add: ustr_def)

lemma Nil_eq_ustr_iff [simp]: "[] = ustr a \<longleftrightarrow> a = []"
  by (simp add: ustr_def)

lemma ustr_append: "ustr (a @ b) = ustr a @ ustr b"
  by (simp add: ustr_def)

section \<open>Sorting by score\<close>

text \<open>
  On keys that are all numbers no comparison raises, and the sort puts first the first
  of the elements with the greatest key.
\<close>

lemma num_of_None_iff: "num_of v = None \<longleftrightarrow> \<not> is_number v"
  by (cases v) auto

lemma py_lt_nkey:
  "num_of (fst p) \<noteq> None \<Longrightarrow> num_of (fst q) \<noteq> None \<Longrightarrow> py_lt (fst p) (fst q) = Inr (nkey p < nkey q)"
  by (auto simp: nkey_def py_lt_def)

lemma insert_desc_total:
  "num_of (fst p) \<noteq> None \<Longrightarrow> \<forall>q \<in> set qs. num_of (fst q) \<noteq> None \<Longrightarrow>
   \<exists>rs. insert_desc p qs = Inr rs \<and> set rs = insert p (set qs)"
proof (induction qs)
  case Nil
  then show ?case by simp
next
  case (Cons q qs)
  then obtain rs where rs: "insert_desc p qs = Inr rs" "set rs = insert p (set qs)"
    by auto
  from Cons.prems have lt: "py_lt (fst p) (fst q) = Inr (nkey p < nkey q)"
    by (simp add: py_lt_nkey)
  show ?case
  proof (cases "nkey p < nkey q")
    case True
    with lt rs show ?thesis by auto
  next
    case False
    with lt show ?thesis by auto
  qed
qed

lemma sort_desc_total:
  "\<forall>p \<in> set ps. num_of (fst p) \<noteq> None \<Longrightarrow> \<exists>qs. sort_desc ps = Inr qs \<and> set qs = set ps"
proof (induction ps)
  case Nil
  then show ?case by simp
next
  case (Cons p ps)
  then obtain qs where qs: "sort_desc ps = Inr qs" "set qs = set ps" by auto
  with Cons.prems have "\<exists>rs. insert_desc p qs = Inr rs \<and> set rs = insert p (set qs)"
    by (intro insert_desc_total) auto
  with qs show ?case by auto
qed

lemma first_maximal_Cons_0:
  "first_maximal (s # ss) 0 \<longleftrightarrow> (\<forall>x \<in> set ss. x \<le> s)"
  by (auto simp: first_maximal_def)

lemma first_maximal_Cons_Suc:
  "first_maximal (s # ss) (Suc i) \<longleftrightarrow> first_maximal ss i \<and> s < ss ! i"
  by (auto simp: first_maximal_def)

lemma first_maximal_exists: "ss \<noteq> [] \<Longrightarrow> \<exists>i. first_maximal (ss::rat list) i"
proof (induction ss)
  case Nil
  then show ?case by simp
next
  case (Cons s ss)
  show ?case
  proof (cases "\<forall>x \<in> set ss. x \<le> s")
    case True
    then have "first_maximal (s # ss) 0" by (simp add: first_maximal_Cons_0)
    then show ?thesis ..
  next
    case False
    then have "ss \<noteq> []" by auto
    with Cons.IH obtain i where i: "first_maximal ss i" by auto
    from False obtain x where "x \<in> set ss" "s < x" by (auto simp: not_le)
    with i have "s < ss ! i" by (auto simp: first_maximal_def)
    with i have "first_maximal (s # ss) (Suc i)" by (simp add: first_maximal_Cons_Suc)
    then show ?thesis ..
  qed
qed

lemma sort_desc_hd:
  "\<forall>p \<in> set ps. num_of (fst p) \<noteq> None \<Longrightarrow> first_maximal (map nkey ps) i \<Longrightarrow>
   \<exists>qs. sort_desc ps = Inr (ps ! i # qs)"
proof (induction ps arbitrary: i)
  case Nil
  then show ?case by (simp add: first_maximal_def)
next
  case (Cons p ps)
  from Cons.prems(1) obtain qs where qs: "sort_desc ps = Inr qs" "set qs = set ps"
    using sort_desc_total [of ps] by auto
  show ?case
  proof (cases i)
    case 0
    show ?thesis
    proof (cases qs)
      case Nil
      with qs 0 show ?thesis by simp
    next
      case (Cons q qs')
      with qs have "q \<in> set ps" by auto
      with Cons.prems 0 have "\<not> nkey p < nkey q"
        by (auto simp: first_maximal_Cons_0 not_less)
      moreover from Cons.prems(1) \<open>q \<in> set ps\<close>
      have "py_lt (fst p) (fst q) = Inr (nkey p < nkey q)"
        by (simp add: py_lt_nkey)
      ultimately show ?thesis using qs Cons 0 by simp
    qed
  next
    case (Suc j)
    with Cons.prems have fm: "first_maximal (map nkey ps) j" and less: "nkey p < map nkey ps ! j"
      by (simp_all add: first_maximal_Cons_Suc)
    from fm have j: "j < length ps" by (simp add: first_maximal_def)
    from Cons.IH [OF _ fm] Cons.prems(1) obtain qs' where qs': "sort_desc ps = Inr (ps ! j # qs')"
      by auto
    with qs have set': "set (ps ! j # qs') = set ps" by simp
    from j Cons.prems(1) have "py_lt (fst p) (fst (ps ! j)) = Inr (nkey p < nkey (ps ! j))"
      by (simp add: py_lt_nkey)
    with less j have lt: "py_lt (fst p) (fst (ps ! j)) = Inr True" by simp
    from Cons.prems(1) set' have "\<exists>rs. insert_desc p qs' = Inr rs \<and> set rs = insert p (set qs')"
      by (intro insert_desc_total) auto
    then obtain rs where "insert_desc p qs' = Inr rs" by auto
    with qs' lt Suc show ?thesis by simp
  qed
qed

lemma with_keys_dicts:
  "\<forall>t \<in> set ts. is_dict t \<Longrightarrow>
   with_keys (\<lambda>x. py_get x ''score'' (PInt 0)) ts = Inr (map (\<lambda>t. (raw_score t, t)) ts)"
proof (induction ts)
  case Nil
  then show ?case by simp
next
  case (Cons t ts)
  then obtain d where "t = PDict d" by (cases t) auto
  with Cons show ?case by simp
qed

lemma py_get_label: "is_dict t \<Longrightarrow> py_get t ''label'' PNone = Inr (label_of t)"
  by (cases t) auto

text \<open>
  What the tag selection returns on a list of candidates, in terms of the first candidate
  with the highest score.
\<close>

lemma select_tag_first_maximal:
  assumes cands: "\<forall>t \<in> set ts. is_candidate t"
    and fm: "first_maximal (map score_of ts) i"
  shows "select_tag (PList ts) =
     (if truthy (label_of (ts ! i))
      then (case priority_get (label_of (ts ! i)) 100 of
              Inl e \<Rightarrow> Inl e
            | Inr r \<Rightarrow> Inr (label_of (ts ! i), r))
      else Inr (PStr (ustr ''General Feedback''), 100))"
proof -
  from fm have i: "i < length ts" by (simp add: first_maximal_def)
  then have ne: "ts \<noteq> []" by auto
  from cands have dicts: "\<forall>t \<in> set ts. is_dict t" by (simp add: is_candidate_def)
  with ne have hd: "is_dict (ts ! 0)" by (cases ts) auto
  let ?ps = "map (\<lambda>t. (raw_score t, t)) ts"
  have keys: "with_keys (\<lambda>x. py_get x ''score'' (PInt 0)) ts = Inr ?ps"
    using dicts by (rule with_keys_dicts)
  have nk: "map nkey ?ps = map score_of ts"
    by (simp add: nkey_def score_of_def)
  have num: "\<forall>p \<in> set ?ps. num_of (fst p) \<noteq> None"
    using cands by (auto simp: is_candidate_def num_of_None_iff)
  have "first_maximal (map nkey ?ps) i" unfolding nk by (rule fm)
  with num have "\<exists>qs. sort_desc ?ps = Inr (?ps ! i # qs)" by (rule sort_desc_hd)
  then obtain qs where "sort_desc ?ps = Inr (?ps ! i # qs)" ..
  with i keys have sorted: "sort_reverse (\<lambda>x. py_get x ''score'' (PInt 0)) ts = Inr (ts ! i # map snd qs)"
    by (simp add: sort_reverse_def)
  from dicts i have "is_dict (ts ! i)" by simp
  then have lab: "py_get (ts ! i) ''label'' PNone = Inr (label_of (ts ! i))"
    by (rule py_get_label)
  show ?thesis
    using ne hd sorted lab by (simp add: select_tag_def split: sum.splits)
qed

lemma PRIORITY_MAP_eq:
  "PRIORITY_MAP =
     [ustr ''Urgent'' \<mapsto> 0, ustr ''Billing'' \<mapsto> 1, ustr ''Technical Support'' \<mapsto> 2,
      ustr ''Bug Report'' \<mapsto> 3, ustr ''Feature Request'' \<mapsto> 4, ustr ''Praise'' \<mapsto> 5,
      ustr ''General Feedback'' \<mapsto> 6]"
  by (simp add: PRIORITY_MAP_def PRIORITY_ORDER_def enumerate_eq_zip upt_rec)

section \<open>The tag selection\<close>

text \<open>
  Claim C1. On a non-empty list of candidates (dicts whose score is a number or is
  missing, a missing score counting as 0) there is a first candidate with the highest
  score, and the tag selection returns the label of that candidate together with the rank
  of that label in the priority table. As everywhere in the specification's data model,
  the label of a candidate is a non-empty string.
\<close>

theorem select_tag_highest_score_first_seen:
  assumes "ts \<noteq> []" and "\<forall>t \<in> set ts. is_candidate t"
  shows "(\<exists>i. first_maximal (map score_of ts) i) \<and>
         (\<forall>i l. first_maximal (map score_of ts) i \<and> label_of (ts ! i) = PStr l \<and> l \<noteq> []
            \<longrightarrow> select_tag (PList ts) = Inr (PStr l, table_rank l))"
proof
  from assms(1) show "\<exists>i. first_maximal (map score_of ts) i"
    by (intro first_maximal_exists) simp
next
  show "\<forall>i l. first_maximal (map score_of ts) i \<and> label_of (ts ! i) = PStr l \<and> l \<noteq> []
            \<longrightarrow> select_tag (PList ts) = Inr (PStr l, table_rank l)"
  proof (intro allI impI, elim conjE)
    fix i l
    assume "first_maximal (map score_of ts) i" and "label_of (ts ! i) = PStr l" and "l \<noteq> []"
    with select_tag_first_maximal [OF assms(2), of i] show "select_tag (PList ts) = Inr (PStr l, table_rank l)"
      by (simp add: table_rank_def)
  qed
qed

theorem select_tag_highest_score_first_seen_witness:
  "select_tag (PList [PDict [(''label'', PStr (ustr ''Praise'')), (''score'', PFloat (1/10))],
                      PDict [(''label'', PStr (ustr ''Billing'')), (''score'', PFloat (81/100))],
                      PDict [(''label'', PStr (ustr ''Urgent'')), (''score'', PFloat (81/100))],
                      PDict [(''label'', PStr (ustr ''Bug Report''))]])
   = Inr (PStr (ustr ''Billing''), 1)"
proof -
  let ?ts = "[PDict [(''label'', PStr (ustr ''Praise'')), (''score'', PFloat (1/10))],
              PDict [(''label'', PStr (ustr ''Billing'')), (''score'', PFloat (81/100))],
              PDict [(''label'', PStr (ustr ''Urgent'')), (''score'', PFloat (81/100))],
              PDict [(''label'', PStr (ustr ''Bug Report''))]]"
  have ne: "?ts \<noteq> []" by simp
  have cands: "\<forall>t \<in> set ?ts. is_candidate t" by (simp add: is_candidate_def)
  have fm: "first_maximal (map score_of ?ts) 1" by (simp add: first_maximal_def score_of_def)
  have rank: "table_rank (ustr ''Billing'') = 1" by (simp add: table_rank_def PRIORITY_MAP_eq)
  have lab: "label_of (?ts ! 1) = PStr (ustr ''Billing'')" by simp
  from select_tag_highest_score_first_seen
         [OF ne cands, THEN conjunct2, rule_format, of 1 "ustr ''Billing''"] fm lab
  have "select_tag (PList ?ts) = Inr (PStr (ustr ''Billing''), table_rank (ustr ''Billing''))"
    by simp
  with rank show ?thesis by simp
qed

text \<open>
  Claim C5. When the classification result is not a list, is an empty list, or is a list
  whose first element is not a dict, the tag selection returns the default pair
  \<open>("General Feedback", 100)\<close>.
\<close>

theorem select_tag_default:
  "\<not> is_list tags \<or> list_items tags = [] \<or> \<not> is_dict (list_items tags ! 0) \<Longrightarrow>
   select_tag tags = Inr (PStr (ustr ''General Feedback''), 100)"
  by (auto simp: select_tag_def)

theorem select_tag_default_witness:
  "select_tag (PList []) = Inr (PStr (ustr ''General Feedback''), 100) \<and>
   select_tag (PDict [(''error'', PStr (ustr ''Model is loading''))]) = Inr (PStr (ustr ''General Feedback''), 100) \<and>
   select_tag (PList [PStr (ustr ''Billing''), PStr (ustr ''Urgent'')]) = Inr (PStr (ustr ''General Feedback''), 100)"
  using select_tag_default [of "PList []"]
    select_tag_default [of "PDict [(''error'', PStr (ustr ''Model is loading''))]"]
    select_tag_default [of "PList [PStr (ustr ''Billing''), PStr (ustr ''Urgent'')]"]
  by simp

text \<open>
  Claim C6 says that a top candidate whose label is not in the priority table, the label
  \<open>None\<close> included, yields that label with rank 100. For the label \<open>None\<close> the
  selection returns the default label instead: line 160 keeps the default for a label
  that is not true.
\<close>

theorem select_tag_none_label_counterexample:
  "select_tag (PList [PDict [(''label'', PNone), (''score'', PFloat (9/10))]])
     = Inr (PStr (ustr ''General Feedback''), 100) \<and>
   select_tag (PList [PDict [(''label'', PNone), (''score'', PFloat (9/10))]])
     \<noteq> Inr (PNone, 100)"
  by (simp add: select_tag_def sort_reverse_def)

text \<open>
  Claim C6, amended. Let the first candidate with the highest score carry a label that is
  not in the priority table. When the label is true and hashable (a non-empty string, a
  number other than 0, \<open>True\<close>), the selection returns that label with rank 100. When the
  label is not true (\<open>None\<close>, a missing label, the empty string, 0, \<open>False\<close>, an empty
  list or dict), it returns the default pair \<open>("General Feedback", 100)\<close>.
\<close>

theorem select_tag_label_outside_table:
  assumes "\<forall>t \<in> set ts. is_candidate t"
    and "first_maximal (map score_of ts) i"
    and "\<forall>l. label_of (ts ! i) = PStr l \<longrightarrow> PRIORITY_MAP l = None"
  shows "(truthy (label_of (ts ! i)) \<and> \<not> is_list (label_of (ts ! i)) \<and> \<not> is_dict (label_of (ts ! i))
            \<longrightarrow> select_tag (PList ts) = Inr (label_of (ts ! i), 100)) \<and>
         (\<not> truthy (label_of (ts ! i))
            \<longrightarrow> select_tag (PList ts) = Inr (PStr (ustr ''General Feedback''), 100))"
proof -
  have "priority_get v 100 = Inr 100"
    if "\<not> is_list v" "\<not> is_dict v" "\<forall>l. v = PStr l \<longrightarrow> PRIORITY_MAP l = None" for v
    using that by (cases v) auto
  with assms(3) select_tag_first_maximal [OF assms(1,2)] show ?thesis
    by auto
qed

theorem select_tag_label_outside_table_witness:
  "select_tag (PList [PDict [(''label'', PStr (ustr ''Spam'')), (''score'', PFloat (7/10))],
                      PDict [(''label'', PStr (ustr ''Urgent'')), (''score'', PFloat (2/10))]])
     = Inr (PStr (ustr ''Spam''), 100) \<and>
   select_tag (PList [PDict [(''label'', PStr []), (''score'', PFloat (7/10))],
                      PDict [(''label'', PStr (ustr ''Urgent'')), (''score'', PFloat (2/10))]])
     = Inr (PStr (ustr ''General Feedback''), 100)"
proof -
  let ?a = "[PDict [(''label'', PStr (ustr ''Spam'')), (''score'', PFloat (7/10))],
             PDict [(''label'', PStr (ustr ''Urgent'')), (''score'', PFloat (2/10))]]"
  let ?b = "[PDict [(''label'', PStr []), (''score'', PFloat (7/10))],
             PDict [(''label'', PStr (ustr ''Urgent'')), (''score'', PFloat (2/10))]]"
  have ca: "\<forall>t \<in> set ?a. is_candidate t" and cb: "\<forall>t \<in> set ?b. is_candidate t"
    by (simp_all add: is_candidate_def)
  have fa: "first_maximal (map score_of ?a) 0" and fb: "first_maximal (map score_of ?b) 0"
    by (simp_all add: first_maximal_def score_of_def)
  have oa: "\<forall>l. label_of (?a ! 0) = PStr l \<longrightarrow> PRIORITY_MAP l = None"
    and ob: "\<forall>l. label_of (?b ! 0) = PStr l \<longrightarrow> PRIORITY_MAP l = None"
    by (simp_all add: PRIORITY_MAP_eq)
  from select_tag_label_outside_table [OF ca fa oa] select_tag_label_outside_table [OF cb fb ob]
  show ?thesis by simp
qed

section \<open>The request body\<close>

lemma strip_Nil_iff: "strip s = [] \<longleftrightarrow> (\<forall>c \<in> set s. py_isspace c)"
proof
  assume "strip s = []"
  then have all: "\<forall>c \<in> set (dropWhile py_isspace s). py_isspace c"
    by (simp add: strip_def dropWhile_eq_Nil_conv)
  have "dropWhile py_isspace s = []"
  proof (rule ccontr)
    assume ne: "dropWhile py_isspace s \<noteq> []"
    then have "\<not> py_isspace (hd (dropWhile py_isspace s))" by (rule hd_dropWhile)
    moreover from ne have "hd (dropWhile py_isspace s) \<in> set (dropWhile py_isspace s)" by simp
    ultimately show False using all by blast
  qed
  then show "\<forall>c \<in> set s. py_isspace c" by (simp add: dropWhile_eq_Nil_conv)
next
  assume "\<forall>c \<in> set s. py_isspace c"
  then have d: "dropWhile py_isspace s = []" by (simp add: dropWhile_eq_Nil_conv)
  show "strip s = []" unfolding strip_def d by simp
qed

lemma py_get_not_dict: "\<not> is_dict v \<Longrightarrow> py_get v k dflt = Inl (no_attribute v ''get'')"
  by (cases v) auto

lemma py_strip_not_str: "\<not> is_str v \<Longrightarrow> py_strip v = Inl (no_attribute v ''strip'')"
  by (cases v) auto

text \<open>
  Claim C4. A POST request whose body is a JSON object in which \<open>text\<close> is missing, empty
  or made of whitespace only (of code points that \<open>str.isspace\<close> accepts, the Unicode
  spaces included) is answered with status 400 and the message that the text cannot be
  empty, and the world is left as it was: no call is made and nothing is stored.
\<close>

theorem blank_text_rejected_without_calls:
  assumes "http_method request = ''POST''"
    and "json_loads E (body request) = Inr (PDict d)"
    and "map_of d ''text'' = None \<or>
         (\<exists>s. map_of d ''text'' = Some (PStr s) \<and> (\<forall>c \<in> set s. py_isspace c))"
  shows "analyze_feedback E request w =
           (JsonResponse [(''error'', PStr (ustr ''Text input cannot be empty''))] 400, w)"
  using assms by (auto simp: analyze_feedback_def analyze_try_def strip_Nil_iff)

theorem blank_text_rejected_without_calls_witness:
  "analyze_feedback example_env \<lparr> http_method = ''POST'', body = blank_body \<rparr> empty_world =
     (JsonResponse [(''error'', PStr (ustr ''Text input cannot be empty''))] 400, empty_world) \<and>
   analyze_feedback example_env \<lparr> http_method = ''POST'', body = ''{}'' \<rparr> empty_world =
     (JsonResponse [(''error'', PStr (ustr ''Text input cannot be empty''))] 400, empty_world)"
proof -
  have blank: "json_loads example_env blank_body = Inr (PDict [(''text'', PStr blank_text)])"
    by (simp add: example_env_def example_json_loads_def blank_body_def feedback_body_def)
  have absent: "json_loads example_env ''{}'' = Inr (PDict [])"
    by (simp add: example_env_def example_json_loads_def blank_body_def feedback_body_def
        number_body_def)
  have spaces: "\<forall>c \<in> set blank_text. py_isspace c"
    by (simp add: blank_text_def py_isspace_def whitespace_code_points_def)
  from blank_text_rejected_without_calls
         [of "\<lparr> http_method = ''POST'', body = blank_body \<rparr>" example_env
             "[(''text'', PStr blank_text)]" empty_world]
       blank_text_rejected_without_calls
         [of "\<lparr> http_method = ''POST'', body = ''{}'' \<rparr>" example_env "[]" empty_world]
       blank absent spaces
  show ?thesis by simp
qed

section \<open>The view as a whole\<close>

text \<open>The three calls, when they all return and when the zero-shot endpoint answers with an error status.\<close>

lemma api_calls_success:
  assumes "summarization E t MODEL_SUMMARIZATION = Inr summary"
    and "text_classification E t MODEL_SENTIMENT = Inr sentiment"
    and "query E (tags_payload t) = Inr tags"
  shows "api_calls E t w =
     (Inr (summary, sentiment, tags),
      w\<lparr>calls := calls w @ [Summarization t MODEL_SUMMARIZATION,
                              TextClassification t MODEL_SENTIMENT,
                              Post API_URL (tags_payload t)]\<rparr>)"
  using assms by (simp add: api_calls_def made_def)

lemma api_calls_http_error:
  assumes "summarization E t MODEL_SUMMARIZATION = Inr summary"
    and "text_classification E t MODEL_SENTIMENT = Inr sentiment"
    and "requests_post E API_URL (tags_payload t) = Inr r"
    and "400 \<le> status_code r" and "status_code r < 600"
  shows "api_calls E t w =
     (Inl (HTTPError (status_code r) (response_text r)),
      w\<lparr>calls := calls w @ [Summarization t MODEL_SUMMARIZATION,
                              TextClassification t MODEL_SENTIMENT,
                              Post API_URL (tags_payload t)]\<rparr>)"
  using assms by (simp add: api_calls_def query_def raise_for_status_def made_def)

lemma api_calls_tickets: "api_calls E t w = (res, w1) \<Longrightarrow> tickets w1 = tickets w"
  by (auto simp: api_calls_def made_def Let_def split: sum.splits)

text \<open>A request whose calls and whose processing succeed is answered with the record.\<close>

lemma analyze_feedback_success:
  assumes "http_method request = ''POST''"
    and "json_loads E (body request) = Inr (PDict d)"
    and "map_of d ''text'' = Some (PStr s)"
    and "strip s \<noteq> []"
    and "api_calls E (PStr s) w = (Inr (summary, sentiment, tags), w1)"
    and "process_results summary sentiment tags = Inr doc"
  shows "analyze_feedback E request w =
           (JsonResponse (del_timestamp doc) 200, save_to_firestore E doc w1)"
  using assms by (simp add: analyze_feedback_def analyze_try_def)

lemma analyze_feedback_attribute_error:
  assumes "http_method request = ''POST''"
    and "json_loads E (body request) = Inr (PDict d)"
    and "map_of d ''text'' = Some (PStr s)"
    and "strip s \<noteq> []"
    and "api_calls E (PStr s) w = (Inr (summary, sentiment, tags), w1)"
    and "process_results summary sentiment tags = Inl (AttributeError m)"
  shows "analyze_feedback E request w = (unexpected m, w1)"
  using assms by (simp add: analyze_feedback_def analyze_try_def)

lemma process_results_shape:
  assumes "process_results summary sentiment tags = Inr doc"
  shows "\<exists>s c t r. doc = response_data s c t r"
  using assms by (auto simp: process_results_def split: sum.splits prod.splits)

lemma del_timestamp_response_data:
  "del_timestamp (response_data s c t r) =
     [(''summary'', s), (''sentiment'', c), (''tags'', PList [t]), (''priority_rank'', PInt r)]"
  by (simp add: del_timestamp_def response_data_def)

text \<open>The example request and the answers of the example environment.\<close>

lemma strip_feedback_text: "strip feedback_text \<noteq> []"
  by (simp add: strip_Nil_iff feedback_text_def py_isspace_def whitespace_code_points_def
      ustr_def)

lemma process_example_summary:
  "process_summary example_summary = Inr (PStr (ustr ''Customer demands a refund.''))"
  by (simp add: process_summary_def example_summary_def)

lemma title_NEGATIVE: "title (ustr ''NEGATIVE'') = ustr ''Negative''"
  by (simp add: ustr_def title_def is_cased_def is_lower_def is_upper_def to_lower_def
      to_upper_def)

lemma process_example_sentiment: "process_sentiment example_sentiment = Inr (PStr (ustr ''Negative''))"
  by (simp add: example_sentiment_def process_sentiment_def py_gt_def title_NEGATIVE)

lemma select_example_candidates: "select_tag example_candidates = Inr (PStr (ustr ''Billing''), 1)"
  by (simp add: example_candidates_def select_tag_def sort_reverse_def py_lt_def PRIORITY_MAP_eq)

lemma process_example_results:
  "process_results example_summary example_sentiment example_candidates =
     Inr (response_data (PStr (ustr ''Customer demands a refund.'')) (PStr (ustr ''Negative''))
            (PStr (ustr ''Billing'')) 1)"
  by (simp add: process_results_def process_example_summary process_example_sentiment
      select_example_candidates)

subsection \<open>A failing zero-shot call\<close>

text \<open>
  Claim C2 says that every status outside 2xx of the zero-shot call makes the request fail
  with that status, with nothing stored. \<open>raise_for_status\<close> raises for the statuses
  400 to 599 only (the comment of line 125 says as much), so an answer with status 300 and
  a JSON body is processed like a success: the caller gets status 200 and the record is
  stored.
\<close>

theorem status_300_counterexample:
  "fst (analyze_feedback env_status_300 example_request empty_world) =
     JsonResponse [(''summary'', PStr (ustr ''Customer demands a refund.'')),
                   (''sentiment'', PStr (ustr ''Negative'')),
                   (''tags'', PList [PStr (ustr ''Billing'')]),
                   (''priority_rank'', PInt 1)] 200 \<and>
   tickets (snd (analyze_feedback env_status_300 example_request empty_world)) =
     [[(''summary'', PStr (ustr ''Customer demands a refund.'')),
       (''sentiment'', PStr (ustr ''Negative'')),
       (''tags'', PList [PStr (ustr ''Billing'')]),
       (''priority_rank'', PInt 1),
       (''timestamp'', ServerTimestamp)]]"
proof -
  let ?E = env_status_300
  let ?t = "PStr feedback_text"
  have a: "http_method example_request = ''POST''"
    and b: "json_loads ?E (body example_request) = Inr (PDict [(''text'', ?t)])"
    and c: "map_of [(''text'', ?t)] ''text'' = Some ?t"
    and e: "summarization ?E ?t MODEL_SUMMARIZATION = Inr example_summary"
    and f: "text_classification ?E ?t MODEL_SENTIMENT = Inr example_sentiment"
    and g: "query ?E (tags_payload ?t) = Inr example_candidates"
    and h: "db ?E = Some (\<lambda>d. None)"
    by (simp_all add: example_request_def env_status_300_def example_env_def
        example_json_loads_def query_def raise_for_status_def)
  from analyze_feedback_success
         [OF a b c strip_feedback_text api_calls_success [OF e f g, of empty_world]
             process_example_results] h
  show ?thesis
    by (simp add: del_timestamp_def save_to_firestore_def made_def empty_world_def
        response_data_def)
qed

text \<open>
  Claim C2, amended. When the summarization and sentiment calls have returned and the
  zero-shot call answers with a status from 400 to 599, the view answers with that status
  and with an error message that holds the status and the body of the answer. The results
  of the two earlier calls are not in the response, and the only effects are the three
  calls: nothing is written to the store.
\<close>

theorem zero_shot_error_status_propagates:
  assumes "http_method request = ''POST''"
    and "json_loads E (body request) = Inr (PDict d)"
    and "map_of d ''text'' = Some (PStr s)"
    and "strip s \<noteq> []"
    and "summarization E (PStr s) MODEL_SUMMARIZATION = Inr summary"
    and "text_classification E (PStr s) MODEL_SENTIMENT = Inr sentiment"
    and "requests_post E API_URL (tags_payload (PStr s)) = Inr r"
    and "400 \<le> status_code r" and "status_code r < 600"
  shows "analyze_feedback E request w =
     (JsonResponse
        [(''error'', PStr (ustr ''Hugging Face API Error: '' @ ustr (str_int (status_code r))
                           @ ustr '' - '' @ response_text r))]
        (status_code r),
      w\<lparr>calls := calls w @ [Summarization (PStr s) MODEL_SUMMARIZATION,
                              TextClassification (PStr s) MODEL_SENTIMENT,
                              Post API_URL (tags_payload (PStr s))]\<rparr>)"
  using assms(1-4) api_calls_http_error [OF assms(5-9), of w]
  by (simp add: analyze_feedback_def analyze_try_def)

theorem zero_shot_error_status_propagates_witness:
  "fst (analyze_feedback env_status_503 example_request empty_world) =
     JsonResponse [(''error'', PStr (ustr ''Hugging Face API Error: 503 - Service Unavailable''))] 503 \<and>
   tickets (snd (analyze_feedback env_status_503 example_request empty_world)) = []"
proof -
  let ?r = "\<lparr> status_code = 503, response_text = ustr ''Service Unavailable'',
               response_json = Inl JSONDecodeError \<rparr>"
  have a: "http_method example_request = ''POST''"
    and b: "json_loads env_status_503 (body example_request) = Inr (PDict [(''text'', PStr feedback_text)])"
    and c: "map_of [(''text'', PStr feedback_text)] ''text'' = Some (PStr feedback_text)"
    and e: "summarization env_status_503 (PStr feedback_text) MODEL_SUMMARIZATION = Inr example_summary"
    and g: "requests_post env_status_503 API_URL (tags_payload (PStr feedback_text)) = Inr ?r"
    and h: "400 \<le> status_code ?r" and i: "status_code ?r < 600"
    by (simp_all add: example_request_def env_status_503_def example_env_def example_json_loads_def)
  obtain sent where f: "text_classification env_status_503 (PStr feedback_text) MODEL_SENTIMENT = Inr sent"
    by (simp add: env_status_503_def example_env_def)
  have code: "ustr ''Hugging Face API Error: '' @ ustr (str_int 503) @ ustr '' - ''
                @ ustr ''Service Unavailable''
              = ustr ''Hugging Face API Error: 503 - Service Unavailable''"
    by (simp add: str_int_def ustr_def)
  from zero_shot_error_status_propagates [OF a b c strip_feedback_text e f g h i, of empty_world] code
  show ?thesis by (simp add: empty_world_def)
qed

subsection \<open>The summary\<close>

text \<open>
  Claim C3 says that a failing summarization call is absorbed like a missing summary
  text. The call of line 105 stands in the \<open>try\<close> block without a handler of its own:
  when it raises, the request is answered with status 500 (or by the \<open>HTTPError\<close>
  clause), no other call is made and nothing is stored.
\<close>

theorem summarization_failure_counterexample:
  "analyze_feedback env_summarization_fails example_request empty_world =
     (JsonResponse [(''error'', PStr (ustr ''An unexpected error occurred: Inference timed out''))] 500,
      \<lparr> calls = [Summarization (PStr feedback_text) MODEL_SUMMARIZATION], tickets = [] \<rparr>)"
  using strip_feedback_text
  by (simp add: analyze_feedback_def analyze_try_def api_calls_def made_def unexpected_def
      example_request_def env_summarization_fails_def example_env_def example_json_loads_def
      empty_world_def ustr_append [symmetric])

text \<open>
  Claim C3, amended. When the summarization call returns a value that is not true or has
  no attribute \<open>summary_text\<close>, and the other two calls and the processing of their
  results succeed, the view answers with status 200 and a record whose summary is
  \<open>"Analysis failed."\<close> and whose sentiment, tag and rank come from the other two calls.
\<close>

theorem missing_summary_text_falls_back:
  assumes "http_method request = ''POST''"
    and "json_loads E (body request) = Inr (PDict d)"
    and "map_of d ''text'' = Some (PStr s)"
    and "strip s \<noteq> []"
    and "summarization E (PStr s) MODEL_SUMMARIZATION = Inr summary"
    and "\<not> truthy summary \<or> \<not> hasattr summary ''summary_text''"
    and "text_classification E (PStr s) MODEL_SENTIMENT = Inr sentiment"
    and "query E (tags_payload (PStr s)) = Inr tags"
    and "process_sentiment sentiment = Inr processed_sentiment"
    and "select_tag tags = Inr (processed_tag, processed_rank)"
  shows "fst (analyze_feedback E request w) =
     JsonResponse [(''summary'', PStr (ustr ''Analysis failed.'')),
                   (''sentiment'', processed_sentiment),
                   (''tags'', PList [processed_tag]),
                   (''priority_rank'', PInt processed_rank)] 200"
proof -
  from assms(6) have "process_summary summary = Inr (PStr (ustr ''Analysis failed.''))"
    by (auto simp: process_summary_def)
  with assms(9,10)
  have "process_results summary sentiment tags =
          Inr (response_data (PStr (ustr ''Analysis failed.'')) processed_sentiment
                 processed_tag processed_rank)"
    by (simp add: process_results_def)
  from analyze_feedback_success
         [OF assms(1-4) api_calls_success [OF assms(5,7,8), of w] this]
  show ?thesis by (simp add: del_timestamp_response_data)
qed

theorem missing_summary_text_falls_back_witness:
  "fst (analyze_feedback env_summarization_none example_request empty_world) =
     JsonResponse [(''summary'', PStr (ustr ''Analysis failed.'')),
                   (''sentiment'', PStr (ustr ''Negative'')),
                   (''tags'', PList [PStr (ustr ''Billing'')]),
                   (''priority_rank'', PInt 1)] 200"
proof -
  let ?E = env_summarization_none
  let ?t = "PStr feedback_text"
  have a: "http_method example_request = ''POST''"
    and b: "json_loads ?E (body example_request) = Inr (PDict [(''text'', ?t)])"
    and c: "map_of [(''text'', ?t)] ''text'' = Some ?t"
    and e: "summarization ?E ?t MODEL_SUMMARIZATION = Inr PNone"
    and n: "\<not> truthy PNone \<or> \<not> hasattr PNone ''summary_text''"
    and f: "text_classification ?E ?t MODEL_SENTIMENT = Inr example_sentiment"
    and g: "query ?E (tags_payload ?t) = Inr example_candidates"
    by (simp_all add: example_request_def env_summarization_none_def example_env_def
        example_json_loads_def query_def raise_for_status_def)
  from missing_summary_text_falls_back
         [OF a b c strip_feedback_text e n f g process_example_sentiment
             select_example_candidates, of empty_world]
  show ?thesis .
qed

subsection \<open>Persistence\<close>

text \<open>
  Claim C7. When the analysis has succeeded, and the Firestore client is \<open>None\<close> or its
  write raises, the view still answers with status 200 and the record without its
  timestamp; the store is unchanged.
\<close>

theorem persistence_is_best_effort:
  assumes "http_method request = ''POST''"
    and "json_loads E (body request) = Inr (PDict d)"
    and "map_of d ''text'' = Some (PStr s)"
    and "strip s \<noteq> []"
    and "api_calls E (PStr s) w = (Inr (summary, sentiment, tags), w1)"
    and "process_results summary sentiment tags = Inr doc"
    and "db E = None \<or> (\<exists>add e. db E = Some add \<and> add doc = Some e)"
  shows "fst (analyze_feedback E request w) = JsonResponse (del_timestamp doc) 200 \<and>
         tickets (snd (analyze_feedback E request w)) = tickets w"
proof -
  from assms(5) have "tickets w1 = tickets w" by (rule api_calls_tickets)
  with assms(7) have "tickets (save_to_firestore E doc w1) = tickets w"
    by (auto simp: save_to_firestore_def made_def)
  with analyze_feedback_success [OF assms(1-6)] show ?thesis by simp
qed

theorem persistence_is_best_effort_witness:
  "fst (analyze_feedback env_no_db example_request empty_world) =
     JsonResponse [(''summary'', PStr (ustr ''Customer demands a refund.'')),
                   (''sentiment'', PStr (ustr ''Negative'')),
                   (''tags'', PList [PStr (ustr ''Billing'')]),
                   (''priority_rank'', PInt 1)] 200 \<and>
   fst (analyze_feedback env_db_fails example_request empty_world) =
     JsonResponse [(''summary'', PStr (ustr ''Customer demands a refund.'')),
                   (''sentiment'', PStr (ustr ''Negative'')),
                   (''tags'', PList [PStr (ustr ''Billing'')]),
                   (''priority_rank'', PInt 1)] 200"
proof -
  let ?t = "PStr feedback_text"
  let ?doc = "response_data (PStr (ustr ''Customer demands a refund.'')) (PStr (ustr ''Negative''))
                (PStr (ustr ''Billing'')) 1"
  have a: "http_method example_request = ''POST''"
    and c: "map_of [(''text'', ?t)] ''text'' = Some ?t"
    by (simp_all add: example_request_def)
  have b1: "json_loads env_no_db (body example_request) = Inr (PDict [(''text'', ?t)])"
    and e1: "summarization env_no_db ?t MODEL_SUMMARIZATION = Inr example_summary"
    and f1: "text_classification env_no_db ?t MODEL_SENTIMENT = Inr example_sentiment"
    and g1: "query env_no_db (tags_payload ?t) = Inr example_candidates"
    and h1: "db env_no_db = None \<or> (\<exists>add e. db env_no_db = Some add \<and> add ?doc = Some e)"
    by (simp_all add: example_request_def env_no_db_def example_env_def
        example_json_loads_def query_def raise_for_status_def)
  have b2: "json_loads env_db_fails (body example_request) = Inr (PDict [(''text'', ?t)])"
    and e2: "summarization env_db_fails ?t MODEL_SUMMARIZATION = Inr example_summary"
    and f2: "text_classification env_db_fails ?t MODEL_SENTIMENT = Inr example_sentiment"
    and g2: "query env_db_fails (tags_payload ?t) = Inr example_candidates"
    and h2: "db env_db_fails = None \<or> (\<exists>add e. db env_db_fails = Some add \<and> add ?doc = Some e)"
    by (simp_all add: example_request_def env_db_fails_def example_env_def
        example_json_loads_def query_def raise_for_status_def)
  from persistence_is_best_effort
         [OF a b1 c strip_feedback_text api_calls_success [OF e1 f1 g1, of empty_world]
             process_example_results h1]
       persistence_is_best_effort
         [OF a b2 c strip_feedback_text api_calls_success [OF e2 f2 g2, of empty_world]
             process_example_results h2]
  show ?thesis by (simp add: del_timestamp_response_data)
qed

text \<open>
  Claim C8. When the analysis has succeeded, the response has status 200 and exactly the
  fields \<open>summary\<close>, \<open>sentiment\<close>, \<open>tags\<close> and \<open>priority_rank\<close>, in which \<open>tags\<close>
  is a list of one element; and when the write succeeds, the stored document is the
  response with the one further field \<open>timestamp\<close>, the server timestamp sentinel.
\<close>

theorem response_and_stored_record:
  assumes "http_method request = ''POST''"
    and "json_loads E (body request) = Inr (PDict d)"
    and "map_of d ''text'' = Some (PStr s)"
    and "strip s \<noteq> []"
    and "api_calls E (PStr s) w = (Inr (summary, sentiment, tags), w1)"
    and "process_results summary sentiment tags = Inr doc"
  shows "status (fst (analyze_feedback E request w)) = 200 \<and>
         map fst (data (fst (analyze_feedback E request w))) =
           [''summary'', ''sentiment'', ''tags'', ''priority_rank''] \<and>
         (\<exists>t. map_of (data (fst (analyze_feedback E request w))) ''tags'' = Some (PList [t])) \<and>
         (\<forall>add. db E = Some add \<and> add doc = None \<longrightarrow>
            tickets (snd (analyze_feedback E request w)) =
              tickets w @ [data (fst (analyze_feedback E request w))
                             @ [(''timestamp'', ServerTimestamp)]])"
proof -
  from assms(6) obtain ps pc pt pr where doc: "doc = response_data ps pc pt pr"
    using process_results_shape by blast
  from assms(5) have t: "tickets w1 = tickets w" by (rule api_calls_tickets)
  have stored: "tickets (save_to_firestore E doc w1) = tickets w @ [doc]"
    if "db E = Some add" "add doc = None" for add
    using that t by (simp add: save_to_firestore_def made_def)
  have split: "doc = del_timestamp doc @ [(''timestamp'', ServerTimestamp)]"
    by (simp add: doc del_timestamp_def response_data_def)
  from analyze_feedback_success [OF assms(1-6)]
  have res: "analyze_feedback E request w =
               (JsonResponse (del_timestamp doc) 200, save_to_firestore E doc w1)" .
  have dt: "del_timestamp doc =
              [(''summary'', ps), (''sentiment'', pc), (''tags'', PList [pt]),
               (''priority_rank'', PInt pr)]"
    unfolding doc by (rule del_timestamp_response_data)
  have "status (fst (analyze_feedback E request w)) = 200"
    by (simp add: res)
  moreover have "map fst (data (fst (analyze_feedback E request w))) =
                   [''summary'', ''sentiment'', ''tags'', ''priority_rank'']"
    by (simp add: res dt)
  moreover have "\<exists>t. map_of (data (fst (analyze_feedback E request w))) ''tags'' = Some (PList [t])"
    by (simp add: res dt)
  moreover have "\<forall>add. db E = Some add \<and> add doc = None \<longrightarrow>
            tickets (snd (analyze_feedback E request w)) =
              tickets w @ [data (fst (analyze_feedback E request w))
                             @ [(''timestamp'', ServerTimestamp)]]"
  proof (intro allI impI, elim conjE)
    fix add
    assume "db E = Some add" and "add doc = None"
    then have "tickets (save_to_firestore E doc w1) = tickets w @ [doc]" by (rule stored)
    also have "\<dots> = tickets w @ [del_timestamp doc @ [(''timestamp'', ServerTimestamp)]]"
      using split by simp
    finally show "tickets (snd (analyze_feedback E request w)) =
              tickets w @ [data (fst (analyze_feedback E request w))
                             @ [(''timestamp'', ServerTimestamp)]]"
      by (simp add: res)
  qed
  ultimately show ?thesis by blast
qed

theorem response_and_stored_record_witness:
  "status (fst (analyze_feedback example_env example_request empty_world)) = 200 \<and>
   map fst (data (fst (analyze_feedback example_env example_request empty_world))) =
     [''summary'', ''sentiment'', ''tags'', ''priority_rank''] \<and>
   tickets (snd (analyze_feedback example_env example_request empty_world)) =
     [data (fst (analyze_feedback example_env example_request empty_world))
        @ [(''timestamp'', ServerTimestamp)]]"
proof -
  let ?t = "PStr feedback_text"
  let ?doc = "response_data (PStr (ustr ''Customer demands a refund.'')) (PStr (ustr ''Negative''))
                (PStr (ustr ''Billing'')) 1"
  have a: "http_method example_request = ''POST''"
    and c: "map_of [(''text'', ?t)] ''text'' = Some ?t"
    and b: "json_loads example_env (body example_request) = Inr (PDict [(''text'', ?t)])"
    and e: "summarization example_env ?t MODEL_SUMMARIZATION = Inr example_summary"
    and f: "text_classification example_env ?t MODEL_SENTIMENT = Inr example_sentiment"
    and g: "query example_env (tags_payload ?t) = Inr example_candidates"
    and h: "db example_env = Some (\<lambda>d. None) \<and> (\<lambda>d. None) ?doc = (None :: exc option)"
    by (simp_all add: example_request_def example_env_def
        example_json_loads_def query_def raise_for_status_def)
  from response_and_stored_record
         [OF a b c strip_feedback_text api_calls_success [OF e f g, of empty_world]
             process_example_results] h
  show ?thesis by (simp add: empty_world_def)
qed

subsection \<open>The sentiment\<close>

text \<open>
  On elements that all have a numeric score, \<open>max\<close> returns the first of the elements
  with the highest score.
\<close>

lemma getattr_scored:
  "is_scored x \<Longrightarrow> getattr x ''score'' = Inr (raw_element_score x)"
  by (cases "getattr x ''score''") (auto simp: is_scored_def raw_element_score_def)

lemma py_gt_num:
  "num_of a = Some x \<Longrightarrow> num_of b = Some y \<Longrightarrow> py_gt a b = Inr (y < x)"
  by (simp add: py_gt_def)

lemma num_of_scored: "is_scored x \<Longrightarrow> num_of (raw_element_score x) = Some (element_score x)"
  by (cases "num_of (raw_element_score x)")
     (auto simp: is_scored_def element_score_def num_of_None_iff)

lemma max_from_first_maximal:
  assumes "\<forall>x \<in> set xs. is_scored x"
    and "num_of k = Some r"
    and "first_maximal (r # map element_score xs) i"
  shows "max_from (\<lambda>x. getattr x ''score'') (k, m) xs = Inr ((m # xs) ! i)"
  using assms
proof (induction xs arbitrary: k m r i)
  case Nil
  then show ?case by (simp add: first_maximal_def)
next
  case (Cons x xs)
  from Cons.prems(1) have sx: "is_scored x" and rest: "\<forall>y \<in> set xs. is_scored y" by simp_all
  let ?rx = "element_score x"
  have key: "getattr x ''score'' = Inr (raw_element_score x)" using sx by (rule getattr_scored)
  have nx: "num_of (raw_element_score x) = Some ?rx" using sx by (rule num_of_scored)
  have gt: "py_gt (raw_element_score x) k = Inr (r < ?rx)"
    using nx Cons.prems(2) by (rule py_gt_num)
  show ?case
  proof (cases "r < ?rx")
    case True
    from Cons.prems(3) True obtain j where i: "i = Suc j"
      by (cases i) (auto simp: first_maximal_Cons_0)
    with Cons.prems(3) have fm: "first_maximal (?rx # map element_score xs) j"
      by (simp add: first_maximal_Cons_Suc)
    from Cons.IH [OF rest nx fm, of x]
    have "max_from (\<lambda>x. getattr x ''score'') (raw_element_score x, x) xs = Inr ((x # xs) ! j)" .
    with key gt True i show ?thesis by simp
  next
    case False
    have fm: "first_maximal (r # map element_score xs) (i - 1)" and idx: "(m # xs) ! (i - 1) = (m # x # xs) ! i"
    proof -
      show "first_maximal (r # map element_score xs) (i - 1)"
      proof (cases i)
        case 0
        with Cons.prems(3) show ?thesis by (simp add: first_maximal_Cons_0)
      next
        case (Suc j)
        with Cons.prems(3) have a: "first_maximal (?rx # map element_score xs) j"
          and b: "r < (?rx # map element_score xs) ! j"
          by (simp_all add: first_maximal_Cons_Suc)
        from b False obtain j' where j: "j = Suc j'" by (cases j) auto
        with a b Suc show ?thesis by (simp add: first_maximal_Cons_Suc)
      qed
      show "(m # xs) ! (i - 1) = (m # x # xs) ! i"
      proof (cases i)
        case 0
        then show ?thesis by simp
      next
        case (Suc j)
        with Cons.prems(3) have b: "r < (?rx # map element_score xs) ! j"
          by (simp add: first_maximal_Cons_Suc)
        from b False obtain j' where "j = Suc j'" by (cases j) auto
        with Suc show ?thesis by simp
      qed
    qed
    from Cons.IH [OF rest Cons.prems(2) fm, of m]
    have "max_from (\<lambda>x. getattr x ''score'') (k, m) xs = Inr ((m # xs) ! (i - 1))" .
    with key gt False idx show ?thesis by simp
  qed
qed

lemma py_max_first_maximal:
  assumes "\<forall>x \<in> set xs. is_scored x" and "first_maximal (map element_score xs) i"
  shows "py_max (\<lambda>x. getattr x ''score'') xs = Inr (xs ! i)"
proof (cases xs)
  case Nil
  with assms(2) show ?thesis by (simp add: first_maximal_def)
next
  case (Cons x ys)
  with assms(1) have sx: "is_scored x" and rest: "\<forall>y \<in> set ys. is_scored y" by simp_all
  from assms(2) Cons have fm: "first_maximal (element_score x # map element_score ys) i" by simp
  from max_from_first_maximal [OF rest num_of_scored [OF sx] fm, of x]
  show ?thesis using Cons getattr_scored [OF sx] by simp
qed

text \<open>
  Claim C9 says that an empty or malformed sentiment response gives the sentiment
  \<open>"Neutral"\<close> without failing the request. The guard of line 144 covers a response that
  is empty or not a list. A list whose element is malformed passes the guard: with an
  element whose label is \<open>None\<close>, \<open>top.label.title()\<close> raises and the request is
  answered with status 500.
\<close>

theorem sentiment_without_label_counterexample:
  "process_sentiment sentiment_without_label = Inl (no_attribute PNone ''title'') \<and>
   fst (analyze_feedback env_sentiment_without_label example_request empty_world) =
     unexpected (no_attribute_message PNone ''title'') \<and>
   status (fst (analyze_feedback env_sentiment_without_label example_request empty_world)) = 500 \<and>
   tickets (snd (analyze_feedback env_sentiment_without_label example_request empty_world)) = []"
proof -
  have ps: "process_sentiment sentiment_without_label = Inl (no_attribute PNone ''title'')"
    by (simp add: sentiment_without_label_def process_sentiment_def)
  have pr: "process_results example_summary sentiment_without_label example_candidates =
              Inl (no_attribute PNone ''title'')"
    by (simp add: process_results_def process_example_summary ps)
  let ?E = env_sentiment_without_label
  let ?t = "PStr feedback_text"
  have a: "http_method example_request = ''POST''"
    and b: "json_loads ?E (body example_request) = Inr (PDict [(''text'', ?t)])"
    and c: "map_of [(''text'', ?t)] ''text'' = Some ?t"
    and e: "summarization ?E ?t MODEL_SUMMARIZATION = Inr example_summary"
    and f: "text_classification ?E ?t MODEL_SENTIMENT = Inr sentiment_without_label"
    and g: "query ?E (tags_payload ?t) = Inr example_candidates"
    by (simp_all add: example_request_def env_sentiment_without_label_def example_env_def
        example_json_loads_def query_def raise_for_status_def)
  from analyze_feedback_attribute_error
         [OF a b c strip_feedback_text api_calls_success [OF e f g, of empty_world]
             pr [unfolded no_attribute_def]]
  have res: "analyze_feedback ?E example_request empty_world =
          (unexpected (no_attribute_message PNone ''title''),
           empty_world\<lparr>calls := calls empty_world @
              [Summarization ?t MODEL_SUMMARIZATION, TextClassification ?t MODEL_SENTIMENT,
               Post API_URL (tags_payload ?t)]\<rparr>)" .
  show ?thesis unfolding res by (simp add: ps unexpected_def empty_world_def)
qed

text \<open>
  Claim C9, amended. When the sentiment response is not true (\<open>None\<close>, empty) or is not a
  list, the sentiment is \<open>"Neutral"\<close>. When it is a list of elements that all have a
  numeric score, the sentiment is the title-cased label of the first element with the
  highest score, provided that label is a string.
\<close>

theorem sentiment_of_response:
  "(\<not> truthy sentiment \<or> \<not> is_list sentiment
      \<longrightarrow> process_sentiment sentiment = Inr (PStr (ustr ''Neutral''))) \<and>
   (\<forall>xs i l. sentiment = PList xs \<and> (\<forall>x \<in> set xs. is_scored x)
        \<and> first_maximal (map element_score xs) i \<and> getattr (xs ! i) ''label'' = Inr (PStr l)
      \<longrightarrow> process_sentiment sentiment = Inr (PStr (title l)))"
proof (intro conjI allI impI)
  assume "\<not> truthy sentiment \<or> \<not> is_list sentiment"
  then show "process_sentiment sentiment = Inr (PStr (ustr ''Neutral''))"
    by (auto simp: process_sentiment_def)
next
  fix xs i l
  assume h: "sentiment = PList xs \<and> (\<forall>x \<in> set xs. is_scored x)
        \<and> first_maximal (map element_score xs) i \<and> getattr (xs ! i) ''label'' = Inr (PStr l)"
  then have "i < length xs" by (simp add: first_maximal_def)
  then have ne: "xs \<noteq> []" by auto
  from h have "py_max (\<lambda>x. getattr x ''score'') xs = Inr (xs ! i)"
    by (intro py_max_first_maximal) simp_all
  with h ne show "process_sentiment sentiment = Inr (PStr (title l))"
    by (simp add: process_sentiment_def)
qed

theorem sentiment_of_response_witness:
  "process_sentiment PNone = Inr (PStr (ustr ''Neutral'')) \<and>
   process_sentiment (PList []) = Inr (PStr (ustr ''Neutral'')) \<and>
   process_sentiment example_sentiment = Inr (PStr (ustr ''Negative''))"
proof -
  let ?xs = "[PObj ''TextClassificationOutputElement''
                [(''label'', PStr (ustr ''NEGATIVE'')), (''score'', PFloat (98 / 100))],
              PObj ''TextClassificationOutputElement''
                [(''label'', PStr (ustr ''POSITIVE'')), (''score'', PFloat (2 / 100))]]"
  have a: "\<not> truthy PNone \<or> \<not> is_list PNone" by simp
  have b: "\<not> truthy (PList []) \<or> \<not> is_list (PList [])" by simp
  have c: "example_sentiment = PList ?xs \<and> (\<forall>x \<in> set ?xs. is_scored x)
        \<and> first_maximal (map element_score ?xs) 0
        \<and> getattr (?xs ! 0) ''label'' = Inr (PStr (ustr ''NEGATIVE''))"
    by (simp add: example_sentiment_def is_scored_def raw_element_score_def element_score_def
        first_maximal_def)
  from sentiment_of_response [of PNone, THEN conjunct1, rule_format, OF a]
       sentiment_of_response [of "PList []", THEN conjunct1, rule_format, OF b]
       sentiment_of_response [of example_sentiment, THEN conjunct2, rule_format, OF c]
  show ?thesis by (simp add: title_NEGATIVE)
qed

section \<open>Bodies that are not a feedback request\<close>

text \<open>
  None of the functions of the view raises \<open>JSONDecodeError\<close> by itself: the error can
  only come from the parser or from a call to the outside.
\<close>

lemma py_get_no_decode_error: "py_get v k dflt \<noteq> Inl JSONDecodeError"
  by (cases v) (simp_all add: no_attribute_def)

lemma py_strip_no_decode_error: "py_strip v \<noteq> Inl JSONDecodeError"
  by (cases v) (simp_all add: no_attribute_def)

lemma getattr_no_decode_error: "getattr v a \<noteq> Inl JSONDecodeError"
  by (cases v) (simp_all add: no_attribute_def split: option.splits)

lemma py_title_no_decode_error: "py_title v \<noteq> Inl JSONDecodeError"
  by (cases v) (simp_all add: no_attribute_def)

lemma py_lt_no_decode_error: "py_lt a b \<noteq> Inl JSONDecodeError"
  by (simp add: py_lt_def not_supported_def split: option.splits pyval.splits)

lemma py_gt_no_decode_error: "py_gt a b \<noteq> Inl JSONDecodeError"
  by (simp add: py_gt_def not_supported_def split: option.splits pyval.splits)

lemma priority_get_no_decode_error: "priority_get v dflt \<noteq> Inl JSONDecodeError"
  by (cases v) (simp_all add: unhashable_def)

lemma with_keys_no_decode_error:
  "(\<And>x. f x \<noteq> Inl JSONDecodeError) \<Longrightarrow> with_keys f xs \<noteq> Inl JSONDecodeError"
  by (induction xs) (auto split: sum.splits)

lemma insert_desc_no_decode_error: "insert_desc p qs \<noteq> Inl JSONDecodeError"
  using py_lt_no_decode_error by (induction qs) (auto split: sum.splits bool.splits)

lemma sort_desc_no_decode_error: "sort_desc ps \<noteq> Inl JSONDecodeError"
  using insert_desc_no_decode_error by (induction ps) (auto split: sum.splits)

lemma sort_reverse_no_decode_error:
  "(\<And>x. f x \<noteq> Inl JSONDecodeError) \<Longrightarrow> sort_reverse f xs \<noteq> Inl JSONDecodeError"
  using with_keys_no_decode_error [of f xs] sort_desc_no_decode_error
  by (auto simp: sort_reverse_def split: sum.splits)

lemma select_tag_no_decode_error: "select_tag tags \<noteq> Inl JSONDecodeError"
  using sort_reverse_no_decode_error [of "\<lambda>x. py_get x ''score'' (PInt 0)" "list_items tags"]
    py_get_no_decode_error priority_get_no_decode_error
  by (auto simp: select_tag_def split: sum.splits)

lemma max_from_no_decode_error:
  "(\<And>x. f x \<noteq> Inl JSONDecodeError) \<Longrightarrow> max_from f m xs \<noteq> Inl JSONDecodeError"
  using py_gt_no_decode_error by (induction xs arbitrary: m) (auto split: sum.splits)

lemma py_max_no_decode_error:
  "(\<And>x. f x \<noteq> Inl JSONDecodeError) \<Longrightarrow> py_max f xs \<noteq> Inl JSONDecodeError"
  using max_from_no_decode_error [of f] by (cases xs) (auto split: sum.splits)

lemma process_sentiment_no_decode_error: "process_sentiment v \<noteq> Inl JSONDecodeError"
  using py_max_no_decode_error [of "\<lambda>x. getattr x ''score''" "list_items v"]
    getattr_no_decode_error py_title_no_decode_error
  by (auto simp: process_sentiment_def split: sum.splits)

lemma process_summary_no_decode_error: "process_summary v \<noteq> Inl JSONDecodeError"
  using getattr_no_decode_error by (simp add: process_summary_def)

lemma process_results_no_decode_error:
  "process_results summary sentiment tags \<noteq> Inl JSONDecodeError"
  using process_summary_no_decode_error [of summary]
    process_sentiment_no_decode_error [of sentiment] select_tag_no_decode_error [of tags]
  by (auto simp: process_results_def split: sum.splits prod.splits)

lemma api_calls_no_decode_error:
  assumes "summarization E t MODEL_SUMMARIZATION \<noteq> Inl JSONDecodeError"
    and "text_classification E t MODEL_SENTIMENT \<noteq> Inl JSONDecodeError"
    and "query E (tags_payload t) \<noteq> Inl JSONDecodeError"
  shows "fst (api_calls E t w) \<noteq> Inl JSONDecodeError"
  using assms by (auto simp: api_calls_def Let_def split: sum.splits)

lemma analyze_try_decode_error:
  assumes "\<And>t. summarization E t MODEL_SUMMARIZATION \<noteq> Inl JSONDecodeError"
    and "\<And>t. text_classification E t MODEL_SENTIMENT \<noteq> Inl JSONDecodeError"
    and "\<And>t. query E (tags_payload t) \<noteq> Inl JSONDecodeError"
    and "fst (analyze_try E request w) = Inl JSONDecodeError"
  shows "json_loads E (body request) = Inl JSONDecodeError"
proof (rule ccontr)
  assume no: "json_loads E (body request) \<noteq> Inl JSONDecodeError"
  have "api_calls E t w \<noteq> (Inl JSONDecodeError, w1)" for t w1
    using api_calls_no_decode_error [OF assms(1-3), of t w] by auto
  with no assms(4) py_get_no_decode_error py_strip_no_decode_error
    process_results_no_decode_error
  show False
    by (auto simp: analyze_try_def split: sum.splits prod.splits if_splits)
qed

lemma analyze_try_response:
  assumes "fst (analyze_try E request w) = Inr r"
  shows "r = JsonResponse [(''error'', PStr (ustr ''Text input cannot be empty''))] 400 \<or> status r = 200"
  using assms by (auto simp: analyze_try_def split: sum.splits prod.splits if_splits)

lemma invalid_json_response_only_for_decode_error:
  assumes "fst (analyze_feedback E request w) =
             JsonResponse [(''error'', PStr (ustr ''Invalid JSON in request body''))] 400"
  shows "fst (analyze_try E request w) = Inl JSONDecodeError"
proof (cases "analyze_try E request w")
  case (Pair res w1)
  show ?thesis
  proof (cases res)
    case (Inr r)
    with Pair have "fst (analyze_try E request w) = Inr r" by simp
    from analyze_try_response [OF this] Pair Inr assms show ?thesis
      by (auto simp: analyze_feedback_def split: if_splits)
  next
    case (Inl e)
    with Pair assms show ?thesis
      by (cases e) (auto simp: analyze_feedback_def unexpected_def ustr_def split: if_splits)
  qed
qed

text \<open>
  Claim C10 says that every body that parses as JSON but is not an object with a string
  under \<open>text\<close> is answered with status 500. The object without any \<open>text\<close> is such
  a body, and it is answered with status 400: the default of \<open>data.get('text', '')\<close> is the
  empty string, which line 94 rejects.
\<close>

theorem object_without_text_counterexample:
  "example_json_loads ''{}'' = Inr (PDict []) \<and>
   analyze_feedback example_env \<lparr> http_method = ''POST'', body = ''{}'' \<rparr> empty_world =
     (JsonResponse [(''error'', PStr (ustr ''Text input cannot be empty''))] 400, empty_world)"
  by (simp add: analyze_feedback_def analyze_try_def example_env_def example_json_loads_def
      feedback_body_def blank_body_def number_body_def strip_def)

text \<open>
  Claim C10, amended. For a POST request: a body that parses to a value that is not an
  object, or to an object in which \<open>text\<close> is present and is not a string, is answered
  with status 500 and the message of the unexpected error (the \<open>AttributeError\<close> of
  \<open>get\<close> or of \<open>strip\<close>), with the world left as it was. And as long as no call to
  the outside raises a JSON decoding error of its own, only a body on which the parser
  raises \<open>JSONDecodeError\<close> is answered with the status 400 and the message of invalid
  JSON.
\<close>

theorem request_body_shapes:
  assumes "http_method request = ''POST''"
  shows "(\<forall>v. json_loads E (body request) = Inr v \<and> \<not> is_dict v \<longrightarrow>
            analyze_feedback E request w = (unexpected (no_attribute_message v ''get''), w)) \<and>
         (\<forall>d x. json_loads E (body request) = Inr (PDict d) \<and> map_of d ''text'' = Some x
                 \<and> \<not> is_str x \<longrightarrow>
            analyze_feedback E request w = (unexpected (no_attribute_message x ''strip''), w)) \<and>
         ((\<forall>t. summarization E t MODEL_SUMMARIZATION \<noteq> Inl JSONDecodeError) \<and>
          (\<forall>t. text_classification E t MODEL_SENTIMENT \<noteq> Inl JSONDecodeError) \<and>
          (\<forall>t. query E (tags_payload t) \<noteq> Inl JSONDecodeError) \<and>
          fst (analyze_feedback E request w) =
            JsonResponse [(''error'', PStr (ustr ''Invalid JSON in request body''))] 400 \<longrightarrow>
            json_loads E (body request) = Inl JSONDecodeError)"
proof (intro conjI allI impI)
  fix v
  assume "json_loads E (body request) = Inr v \<and> \<not> is_dict v"
  with assms show "analyze_feedback E request w = (unexpected (no_attribute_message v ''get''), w)"
    by (simp add: analyze_feedback_def analyze_try_def py_get_not_dict no_attribute_def)
next
  fix d x
  assume "json_loads E (body request) = Inr (PDict d) \<and> map_of d ''text'' = Some x \<and> \<not> is_str x"
  with assms show "analyze_feedback E request w = (unexpected (no_attribute_message x ''strip''), w)"
    by (simp add: analyze_feedback_def analyze_try_def py_strip_not_str no_attribute_def)
next
  assume h: "(\<forall>t. summarization E t MODEL_SUMMARIZATION \<noteq> Inl JSONDecodeError) \<and>
          (\<forall>t. text_classification E t MODEL_SENTIMENT \<noteq> Inl JSONDecodeError) \<and>
          (\<forall>t. query E (tags_payload t) \<noteq> Inl JSONDecodeError) \<and>
          fst (analyze_feedback E request w) =
            JsonResponse [(''error'', PStr (ustr ''Invalid JSON in request body''))] 400"
  then have "fst (analyze_try E request w) = Inl JSONDecodeError"
    by (intro invalid_json_response_only_for_decode_error) simp
  with h show "json_loads E (body request) = Inl JSONDecodeError"
    by (intro analyze_try_decode_error [of E request w]) simp_all
qed

theorem request_body_shapes_witness:
  "analyze_feedback example_env \<lparr> http_method = ''POST'', body = ''[]'' \<rparr> empty_world =
     (unexpected (no_attribute_message (PList []) ''get''), empty_world) \<and>
   analyze_feedback example_env \<lparr> http_method = ''POST'', body = number_body \<rparr> empty_world =
     (unexpected (no_attribute_message (PInt 5) ''strip''), empty_world) \<and>
   status (unexpected (no_attribute_message (PInt 5) ''strip'')) = 500 \<and>
   fst (analyze_feedback example_env \<lparr> http_method = ''POST'', body = ''{'' \<rparr> empty_world) =
     JsonResponse [(''error'', PStr (ustr ''Invalid JSON in request body''))] 400 \<and>
   json_loads example_env ''{'' = Inl JSONDecodeError"
proof -
  have arr: "json_loads example_env ''[]'' = Inr (PList []) \<and> \<not> is_dict (PList [])"
    by (simp add: example_env_def example_json_loads_def blank_body_def feedback_body_def
        number_body_def)
  have num: "json_loads example_env number_body = Inr (PDict [(''text'', PInt 5)])
             \<and> map_of [(''text'', PInt 5)] ''text'' = Some (PInt 5) \<and> \<not> is_str (PInt 5)"
    by (simp add: example_env_def example_json_loads_def blank_body_def feedback_body_def
        number_body_def)
  have calls: "(\<forall>t. summarization example_env t MODEL_SUMMARIZATION \<noteq> Inl JSONDecodeError) \<and>
          (\<forall>t. text_classification example_env t MODEL_SENTIMENT \<noteq> Inl JSONDecodeError) \<and>
          (\<forall>t. query example_env (tags_payload t) \<noteq> Inl JSONDecodeError)"
    by (simp add: example_env_def query_def raise_for_status_def)
  have bad: "fst (analyze_feedback example_env \<lparr> http_method = ''POST'', body = ''{'' \<rparr> empty_world) =
     JsonResponse [(''error'', PStr (ustr ''Invalid JSON in request body''))] 400"
    by (simp add: analyze_feedback_def analyze_try_def example_env_def example_json_loads_def
        blank_body_def feedback_body_def number_body_def)
  have a: "analyze_feedback example_env \<lparr> http_method = ''POST'', body = ''[]'' \<rparr> empty_world =
     (unexpected (no_attribute_message (PList []) ''get''), empty_world)"
    using request_body_shapes
            [of "\<lparr> http_method = ''POST'', body = ''[]'' \<rparr>" example_env empty_world,
             THEN conjunct1, rule_format, of "PList []"] arr
    by simp
  have b: "analyze_feedback example_env \<lparr> http_method = ''POST'', body = number_body \<rparr> empty_world =
     (unexpected (no_attribute_message (PInt 5) ''strip''), empty_world)"
    using request_body_shapes
            [of "\<lparr> http_method = ''POST'', body = number_body \<rparr>" example_env empty_world,
             THEN conjunct2, THEN conjunct1, rule_format, of "[(''text'', PInt 5)]" "PInt 5"] num
    by simp
  have c: "json_loads example_env ''{'' = Inl JSONDecodeError"
    using request_body_shapes
            [of "\<lparr> http_method = ''POST'', body = ''{'' \<rparr>" example_env empty_world,
             THEN conjunct2, THEN conjunct2, rule_format] calls bad
    by simp
  from a b c bad show ?thesis by (simp add: unexpected_def)
qed

text \<open>
  The condition on the calls is needed. \<open>response.json()\<close> of line 126 raises a
  \<open>JSONDecodeError\<close> when the zero-shot endpoint answers with a body that is not JSON,
  and the clause of line 195 reports it as invalid JSON in the request body, whose JSON
  was valid.
\<close>

lemma answer_not_json_reported_as_invalid_body:
  "json_loads env_answer_not_json (body example_request) = Inr (PDict [(''text'', PStr feedback_text)]) \<and>
   fst (analyze_feedback env_answer_not_json example_request empty_world) =
     JsonResponse [(''error'', PStr (ustr ''Invalid JSON in request body''))] 400"
  using strip_feedback_text
  by (simp add: analyze_feedback_def analyze_try_def api_calls_def made_def query_def
      raise_for_status_def example_request_def env_answer_not_json_def example_env_def
      example_json_loads_def)

end
